theory Spec2Isabelle
  imports Main
begin

section \<open>JavaScript numbers and strings\<close>

text \<open>
  A JavaScript \<^verbatim>\<open>number\<close> is an IEEE 754 double.  A finite double is \<open>m * 2^e\<close> for
  integers \<open>m\<close> and \<open>e\<close>, and \<open>Fin m e\<close> is that value.  Every arithmetic result is
  rounded to the nearest double, ties to even, by \<open>fl\<close>.  The sign of zero is not
  modelled: the code below never divides by a computed zero.
\<close>

datatype number = NaN | NegInf | Fin int int | PosInf

fun bitlen :: "nat \<Rightarrow> nat" where
  "bitlen n = (if n = 0 then 0 else Suc (bitlen (n div 2)))"

text \<open>The representation with an odd mantissa (and \<open>Fin 0 0\<close> for zero).\<close>

function normalize_dyadic :: "int \<Rightarrow> int \<Rightarrow> number" where
  "normalize_dyadic m e =
     (if m = 0 then Fin 0 0
      else if even m then normalize_dyadic (m div 2) (e + 1)
      else Fin m e)"
  by pat_completeness auto
termination
  by (relation "measure (\<lambda>(m, e). nat \<bar>m\<bar>)") auto

text \<open>\<open>pow2le k p q\<close> is \<open>2^k \<le> p / q\<close>, and \<open>ilog2 p q\<close> the greatest \<open>k\<close> with
  \<open>2^k \<le> p / q\<close>, for positive \<open>p\<close> and \<open>q\<close>.\<close>

definition pow2le :: "int \<Rightarrow> int \<Rightarrow> int \<Rightarrow> bool" where
  "pow2le k p q = (if 0 \<le> k then 2 ^ nat k * q \<le> p else q \<le> p * 2 ^ nat (- k))"

definition ilog2 :: "int \<Rightarrow> int \<Rightarrow> int" where
  "ilog2 p q =
     (let k = int (bitlen (nat p)) - int (bitlen (nat q))
      in if pow2le k p q then k else k - 1)"

text \<open>\<open>round_half_even n d\<close> is the integer nearest to \<open>n / d\<close>, the even one on a tie.\<close>

definition round_half_even :: "int \<Rightarrow> int \<Rightarrow> int" where
  "round_half_even n d =
     (let f = n div d; r = n mod d
      in if 2 * r < d then f else if d < 2 * r then f + 1
         else if even f then f else f + 1)"

text \<open>Rounding of a positive fraction \<open>p / q\<close> to a double: 53 significant bits, least
  exponent \<open>-1074\<close>, overflow to infinity from \<open>2^1024\<close> on.\<close>

definition fl_pos :: "int \<Rightarrow> int \<Rightarrow> (int \<times> int) option" where
  "fl_pos p q =
     (let e = max (ilog2 p q - 52) (- 1074);
          m = (if 0 \<le> e then round_half_even p (q * 2 ^ nat e)
               else round_half_even (p * 2 ^ nat (- e)) q)
      in if 1024 < e + int (bitlen (nat m)) then None else Some (m, e))"

text \<open>\<open>fl p q\<close> is the double nearest to \<open>p / q\<close>, for \<open>q > 0\<close>.  A decimal literal of
  the source is written with it: \<^verbatim>\<open>0.1\<close> is \<open>fl 1 10\<close> and \<^verbatim>\<open>60\<close> is \<open>fl 60 1\<close>.\<close>

definition fl :: "int \<Rightarrow> int \<Rightarrow> number" where
  "fl p q =
     (if p = 0 then Fin 0 0
      else if 0 < p then
        (case fl_pos p q of None \<Rightarrow> PosInf | Some (m, e) \<Rightarrow> normalize_dyadic m e)
      else
        (case fl_pos (- p) q of None \<Rightarrow> NegInf | Some (m, e) \<Rightarrow> normalize_dyadic (- m) e))"

text \<open>\<open>fl_dyadic m e\<close> is the double nearest to \<open>m * 2^e\<close>.\<close>

definition fl_dyadic :: "int \<Rightarrow> int \<Rightarrow> number" where
  "fl_dyadic m e = (if 0 \<le> e then fl (m * 2 ^ nat e) 1 else fl m (2 ^ nat (- e)))"

text \<open>The relational operators: every comparison with \<open>NaN\<close> is false.\<close>

fun number_lt :: "number \<Rightarrow> number \<Rightarrow> bool" where
  "number_lt NaN _ = False"
| "number_lt _ NaN = False"
| "number_lt (Fin m1 e1) (Fin m2 e2) =
     (let e = min e1 e2 in m1 * 2 ^ nat (e1 - e) < m2 * 2 ^ nat (e2 - e))"
| "number_lt NegInf NegInf = False"
| "number_lt NegInf _ = True"
| "number_lt _ NegInf = False"
| "number_lt PosInf _ = False"
| "number_lt _ PosInf = True"

definition number_gt :: "number \<Rightarrow> number \<Rightarrow> bool" where
  "number_gt a b = number_lt b a"

definition number_ge :: "number \<Rightarrow> number \<Rightarrow> bool" where
  "number_ge a b = (a \<noteq> NaN \<and> b \<noteq> NaN \<and> \<not> number_lt a b)"

fun number_neg :: "number \<Rightarrow> number" where
  "number_neg NaN = NaN"
| "number_neg NegInf = PosInf"
| "number_neg PosInf = NegInf"
| "number_neg (Fin m e) = Fin (- m) e"

fun number_times :: "number \<Rightarrow> number \<Rightarrow> number" where
  "number_times NaN _ = NaN"
| "number_times _ NaN = NaN"
| "number_times (Fin m1 e1) (Fin m2 e2) = fl_dyadic (m1 * m2) (e1 + e2)"
| "number_times (Fin m e) y =
     (if m = 0 then NaN else if 0 < m then y else number_neg y)"
| "number_times x (Fin m e) =
     (if m = 0 then NaN else if 0 < m then x else number_neg x)"
| "number_times x y = (if x = y then PosInf else NegInf)"

fun number_divide :: "number \<Rightarrow> number \<Rightarrow> number" where
  "number_divide NaN _ = NaN"
| "number_divide _ NaN = NaN"
| "number_divide (Fin m1 e1) (Fin m2 e2) =
     (if m2 = 0 then (if m1 = 0 then NaN else if 0 < m1 then PosInf else NegInf)
      else fl (sgn m2 * m1 * 2 ^ nat (e1 - e2)) (\<bar>m2\<bar> * 2 ^ nat (e2 - e1)))"
| "number_divide (Fin m e) y = Fin 0 0"
| "number_divide x (Fin m e) = (if 0 \<le> m then x else number_neg x)"
| "number_divide x y = NaN"

fun number_minus :: "number \<Rightarrow> number \<Rightarrow> number" where
  "number_minus NaN _ = NaN"
| "number_minus _ NaN = NaN"
| "number_minus (Fin m1 e1) (Fin m2 e2) =
     (let e = min e1 e2 in fl_dyadic (m1 * 2 ^ nat (e1 - e) - m2 * 2 ^ nat (e2 - e)) e)"
| "number_minus (Fin m e) y = number_neg y"
| "number_minus x (Fin m e) = x"
| "number_minus x y = (if x = y then NaN else x)"

text \<open>Truthiness of a number (\<^verbatim>\<open>x || d\<close>, \<^verbatim>\<open>!x\<close>): zero and \<open>NaN\<close> are falsy.\<close>

fun number_truthy :: "number \<Rightarrow> bool" where
  "number_truthy NaN = False"
| "number_truthy (Fin m e) = (m \<noteq> 0)"
| "number_truthy _ = True"

subsection \<open>Strings that hold numbers\<close>

text \<open>
  \<open>NumberToString x\<close> stands for the string that \<^verbatim>\<open>Number.prototype.toString\<close> produces
  for \<open>x\<close> (the shortest decimal that reads back as \<open>x\<close>); its characters are not computed.
\<close>

datatype jsstring = Str string | NumberToString number

definition is_digit :: "char \<Rightarrow> bool" where
  "is_digit c = (let n = (of_char c :: nat) in 48 \<le> n \<and> n \<le> 57)"

definition is_whitespace :: "char \<Rightarrow> bool" where
  "is_whitespace c = (let n = (of_char c :: nat) in (9 \<le> n \<and> n \<le> 13) \<or> n = 32)"

definition digit_value :: "char \<Rightarrow> nat" where
  "digit_value c = (of_char c :: nat) - 48"

definition digits_value :: "string \<Rightarrow> nat" where
  "digits_value ds = foldl (\<lambda>acc c. 10 * acc + digit_value c) 0 ds"

text \<open>The exponent part of a decimal literal: \<^verbatim>\<open>[eE][+-]?[0-9]+\<close>, or nothing.\<close>

definition exponent_part :: "string \<Rightarrow> int" where
  "exponent_part s =
     (case s of
        [] \<Rightarrow> 0
      | c # r \<Rightarrow>
          if c = CHR ''e'' \<or> c = CHR ''E'' then
            (case r of
               [] \<Rightarrow> 0
             | d # r' \<Rightarrow>
                 if d = CHR ''-'' then - int (digits_value (takeWhile is_digit r'))
                 else if d = CHR ''+'' then int (digits_value (takeWhile is_digit r'))
                 else int (digits_value (takeWhile is_digit r)))
          else 0)"

text \<open>\<^verbatim>\<open>parseFloat\<close> on the characters of a string: leading white space is skipped, the
  longest prefix that is a decimal literal is read, and \<open>NaN\<close> is returned when there is
  none.  Of the white-space characters only the ASCII ones are recognised.\<close>

definition parseFloat_chars :: "string \<Rightarrow> number" where
  "parseFloat_chars s =
     (let s1 = dropWhile is_whitespace s;
          neg = (case s1 of [] \<Rightarrow> False | c # _ \<Rightarrow> c = CHR ''-'');
          s2 = (case s1 of [] \<Rightarrow> [] | c # r \<Rightarrow> if c = CHR ''-'' \<or> c = CHR ''+'' then r else s1)
      in if take 8 s2 = ''Infinity'' then (if neg then NegInf else PosInf)
         else
           let ip = takeWhile is_digit s2;
               r1 = dropWhile is_digit s2;
               has_dot = (case r1 of [] \<Rightarrow> False | c # _ \<Rightarrow> c = CHR ''.'');
               fp = (if has_dot then takeWhile is_digit (tl r1) else []);
               r2 = (if has_dot then dropWhile is_digit (tl r1) else r1)
           in if ip = [] \<and> fp = [] then NaN
              else
                let m = int (digits_value (ip @ fp));
                    sm = (if neg then - m else m);
                    x = exponent_part r2 - int (length fp)
                in if 0 \<le> x then fl (sm * 10 ^ nat x) 1 else fl sm (10 ^ nat (- x)))"

fun parseFloat :: "jsstring \<Rightarrow> number" where
  "parseFloat (Str s) = parseFloat_chars s"
| "parseFloat (NumberToString x) = x"

text \<open>Decimal digits of a natural number.\<close>

definition digit_char :: "nat \<Rightarrow> char" where
  "digit_char d = ''0123456789'' ! d"

fun digits_of :: "nat \<Rightarrow> string" where
  "digits_of n =
     (if n < 10 then [digit_char n] else digits_of (n div 10) @ [digit_char (n mod 10)])"

text \<open>\<^verbatim>\<open>x.toFixed(f)\<close>: for a finite \<open>x\<close> below \<open>10^21\<close> in magnitude, the integer \<open>n\<close> nearest
  to \<open>|x| * 10^f\<close> (the larger one on a tie) written with \<open>f\<close> digits after the point;
  otherwise the result of \<^verbatim>\<open>toString\<close>.\<close>

definition toFixed :: "nat \<Rightarrow> number \<Rightarrow> jsstring" where
  "toFixed f x =
     (case x of
        Fin m e \<Rightarrow>
          if (if 0 \<le> e then 10 ^ 21 \<le> \<bar>m\<bar> * 2 ^ nat e else 10 ^ 21 * 2 ^ nat (- e) \<le> \<bar>m\<bar>)
          then NumberToString x
          else
            let n = (if 0 \<le> e then nat (\<bar>m\<bar> * 2 ^ nat e * 10 ^ f)
                     else nat ((2 * \<bar>m\<bar> * 10 ^ f + 2 ^ nat (- e)) div (2 * 2 ^ nat (- e))));
                ds = digits_of n;
                ds' = (if length ds \<le> f then replicate (f + 1 - length ds) CHR ''0'' @ ds else ds);
                k = length ds';
                body = (if f = 0 then ds' else take (k - f) ds' @ ''.'' @ drop (k - f) ds')
            in Str ((if m < 0 then ''-'' else '''') @ body)
      | _ \<Rightarrow> NumberToString x)"

text \<open>\<^verbatim>\<open>a || b\<close> and truthiness on optional values: \<^verbatim>\<open>undefined\<close>, \<^verbatim>\<open>null\<close> (both \<open>None\<close>) and the
  empty string are falsy.\<close>

fun string_truthy :: "string option \<Rightarrow> bool" where
  "string_truthy None = False"
| "string_truthy (Some s) = (s \<noteq> [])"

definition string_or :: "string option \<Rightarrow> string option \<Rightarrow> string option" where
  "string_or a b = (if string_truthy a then a else b)"

fun jsstring_truthy :: "jsstring option \<Rightarrow> bool" where
  "jsstring_truthy None = False"
| "jsstring_truthy (Some (Str s)) = (s \<noteq> [])"
| "jsstring_truthy (Some (NumberToString x)) = True"

definition jsstring_or :: "jsstring option \<Rightarrow> jsstring \<Rightarrow> jsstring" where
  "jsstring_or a d = (case a of None \<Rightarrow> d | Some s \<Rightarrow> if jsstring_truthy a then s else d)"

definition number_or :: "number option \<Rightarrow> number \<Rightarrow> number" where
  "number_or a d = (case a of None \<Rightarrow> d | Some x \<Rightarrow> if number_truthy x then x else d)"

text \<open>\<^verbatim>\<open>toLowerCase\<close> on the ASCII letters (token addresses are hexadecimal).\<close>

definition lower_char :: "char \<Rightarrow> char" where
  "lower_char c =
     (case map_of (zip ''ABCDEFGHIJKLMNOPQRSTUVWXYZ'' ''abcdefghijklmnopqrstuvwxyz'') c of
        None \<Rightarrow> c
      | Some d \<Rightarrow> d)"

definition toLowerCase :: "string \<Rightarrow> string" where
  "toLowerCase s = map lower_char s"

section \<open>Errors\<close>

text \<open>
  A thrown value: whatever a \<^verbatim>\<open>catch (error: any)\<close> of the source may receive.  The first
  constructors stand for \<^verbatim>\<open>Error\<close> objects, named after their messages:
  \<^item> \<open>BotConfigNotFound\<close>: \<^verbatim>\<open>Bot configuration not found\<close>
  \<^item> \<open>RealTradingDisabled\<close>: \<^verbatim>\<open>Real trading is disabled in configuration\<close>
  \<^item> \<open>PrivateKeyNotConfigured\<close>: \<^verbatim>\<open>Private key not configured for real trading. Set
    PRIVATE_KEY in environment or Settings.\<close>
  \<^item> \<open>InsufficientMaticBalance b\<close>: \<^verbatim>\<open>Insufficient MATIC balance: b MATIC (minimum: 0.1
    MATIC required for gas)\<close>, \<open>b\<close> being \<^verbatim>\<open>currentMatic.toFixed(4)\<close>
  \<^item> \<open>GasPriceTooHigh g m\<close>: \<^verbatim>\<open>Gas price too high: g Gwei (max: m)\<close>
  \<^item> \<open>NotAFunction f\<close>: the \<^verbatim>\<open>TypeError\<close> of calling a member that is \<^verbatim>\<open>undefined\<close>
  \<^item> \<open>Thrown msg\<close>: an error thrown by a collaborator, with its message
  \<^item> \<open>CannotReadProperty p\<close>: the \<^verbatim>\<open>TypeError\<close> of reading the property \<open>p\<close> of
    \<^verbatim>\<open>undefined\<close> or \<^verbatim>\<open>null\<close>.

  A collaborator may also reject with a value that is no \<^verbatim>\<open>Error\<close>:
  \<^item> \<open>NullishValue\<close>: \<^verbatim>\<open>undefined\<close> or \<^verbatim>\<open>null\<close>, of which no property can be read
  \<^item> \<open>ValueWithoutMessage v\<close>: any other value with no \<^verbatim>\<open>message\<close> property, such as
    the string \<open>v\<close>; its \<^verbatim>\<open>message\<close> and \<^verbatim>\<open>stack\<close> are \<^verbatim>\<open>undefined\<close>.
\<close>

datatype exn =
    BotConfigNotFound
  | RealTradingDisabled
  | PrivateKeyNotConfigured
  | InsufficientMaticBalance jsstring
  | GasPriceTooHigh number "number option"
  | NotAFunction string
  | Thrown string
  | CannotReadProperty string
  | NullishValue
  | ValueWithoutMessage string

text \<open>
  The expression \<^verbatim>\<open>error.message\<close> on a caught value: it throws on \<^verbatim>\<open>undefined\<close> and
  \<^verbatim>\<open>null\<close>, is \<^verbatim>\<open>undefined\<close> (\<open>None\<close>) on a value without that property, and is the
  message of an \<^verbatim>\<open>Error\<close>, which \<open>Some e\<close> stands for.
\<close>

fun error_message :: "exn \<Rightarrow> exn + exn option" where
  "error_message NullishValue = Inl (CannotReadProperty ''message'')"
| "error_message (ValueWithoutMessage v) = Inr None"
| "error_message e = Inr (Some e)"

section \<open>The quote source (src/server/dexAggregator.ts)\<close>

definition MATIC :: string where "MATIC = ''0xEeeeeEeeeEeEeeEeEeEeeEEEeeeeEeeeeeeeEEeE''"
definition WMATIC :: string where "WMATIC = ''0x0d500B1d8E8eF31E21C99d1Db9A6444d3ADf1270''"
definition USDC :: string where "USDC = ''0x2791Bca1f2de4661ED88A30C99A7a9449Aa84174''"
definition USDT :: string where "USDT = ''0xc2132D05D31c914a87C6611C10748AEb04B58e8F''"
definition WETH :: string where "WETH = ''0x7ceB23fD6bC0adD59E62ac25578270cFf1b9f619''"
definition DAI :: string where "DAI = ''0x8f3Cf7ad23Cd3CaDbD9735AFf958023239c6A063''"
definition WBTC :: string where "WBTC = ''0x1BFD67037B42Cf73acF2047067bd4F2C47D9BfD6''"

record QuoteParams =
  src :: string
  dst :: string
  amount :: jsstring
  from_address :: "string option"

record TokenInfo =
  symbol :: string
  name :: string
  address :: string
  decimals :: nat

record SwapQuote =
  fromToken :: TokenInfo
  toToken :: TokenInfo
  fromAmount :: jsstring
  toAmount :: "jsstring option"
  estimatedGas :: jsstring
  protocols :: "string list option"
  dex :: string

text \<open>The body of the HTTP answer of the quote endpoint, as far as \<open>getQuote\<close> reads it;
  a field that is absent is \<open>None\<close>.\<close>

record quote_response =
  data_toAmount :: "jsstring option"
  data_toTokenAmount :: "jsstring option"
  data_estimatedGas :: "jsstring option"
  data_protocols :: "string list option"

record DexAggregator =
  apiKey :: "string option"

text \<open>\<^verbatim>\<open>constructor(apiKey?: string) { this.apiKey = apiKey || null; }\<close>\<close>

definition DexAggregator_new :: "string option \<Rightarrow> DexAggregator" where
  "DexAggregator_new key = \<lparr>apiKey = string_or key None\<rparr>"

definition getSupportedTokens :: "TokenInfo list" where
  "getSupportedTokens =
     [\<lparr>symbol = ''MATIC'', name = ''Polygon'', address = MATIC, decimals = 18\<rparr>,
      \<lparr>symbol = ''WMATIC'', name = ''Wrapped MATIC'', address = WMATIC, decimals = 18\<rparr>,
      \<lparr>symbol = ''USDC'', name = ''USD Coin'', address = USDC, decimals = 6\<rparr>,
      \<lparr>symbol = ''USDT'', name = ''Tether USD'', address = USDT, decimals = 6\<rparr>,
      \<lparr>symbol = ''WETH'', name = ''Wrapped Ether'', address = WETH, decimals = 18\<rparr>,
      \<lparr>symbol = ''DAI'', name = ''Dai Stablecoin'', address = DAI, decimals = 18\<rparr>,
      \<lparr>symbol = ''WBTC'', name = ''Wrapped BTC'', address = WBTC, decimals = 8\<rparr>]"

definition getTokenInfo :: "string \<Rightarrow> TokenInfo" where
  "getTokenInfo addr =
     (case find (\<lambda>t. toLowerCase (address t) = toLowerCase addr) getSupportedTokens of
        None \<Rightarrow> \<lparr>symbol = ''UNKNOWN'', name = ''Unknown Token'', address = addr, decimals = 18\<rparr>
      | Some token \<Rightarrow> token)"

text \<open>The synthetic amount of the demo mode: the chain of comparisons of \<open>getQuote\<close>, in
  the order of the source.\<close>

definition estimatedToAmount :: "QuoteParams \<Rightarrow> jsstring" where
  "estimatedToAmount params =
     (let fromAmount = amount params in
      if src params = MATIC \<and> dst params = USDC then
        toFixed 6 (number_times (parseFloat fromAmount) (fl 7 10))
      else if src params = USDC \<and> dst params = MATIC then
        toFixed 6 (number_divide (parseFloat fromAmount) (fl 7 10))
      else if src params = WMATIC \<and> dst params = USDC then
        toFixed 6 (number_times (parseFloat fromAmount) (fl 7 10))
      else if src params = USDC \<and> dst params = WETH then
        toFixed 8 (number_divide (parseFloat fromAmount) (fl 2500 1))
      else if src params = WETH \<and> dst params = USDC then
        toFixed 6 (number_times (parseFloat fromAmount) (fl 2500 1))
      else fromAmount)"

text \<open>
  \<open>getQuote\<close>.  \<open>axios_get key params\<close> is the outcome of the HTTP request to the quote
  endpoint (made only when an API key is set), and \<open>random\<close> the value that
  \<^verbatim>\<open>Math.random()\<close> returns for the \<open>dex\<close> field of the demo mode.  An error of the
  request falls through to the demo mode, once the handler has read its
  \<^verbatim>\<open>message\<close>; that read throws when the request rejected with \<^verbatim>\<open>undefined\<close> or
  \<^verbatim>\<open>null\<close>, and then \<open>getQuote\<close> rejects.
\<close>

definition getQuote ::
  "DexAggregator \<Rightarrow> (string \<Rightarrow> QuoteParams \<Rightarrow> exn + quote_response) \<Rightarrow> number \<Rightarrow> QuoteParams
     \<Rightarrow> exn + SwapQuote" where
  "getQuote this axios_get random params =
     (let fromTokenInfo = getTokenInfo (src params);
          toTokenInfo = getTokenInfo (dst params);
          demo = \<lparr>fromToken = fromTokenInfo, toToken = toTokenInfo,
                  fromAmount = amount params,
                  toAmount = Some (estimatedToAmount params),
                  estimatedGas = Str ''250000'',
                  protocols = None,
                  dex = (if number_gt random (fl 5 10) then ''1inch'' else ''QuickSwap'')\<rparr>
      in case apiKey this of
           None \<Rightarrow> Inr demo
         | Some key \<Rightarrow>
             if key = [] then Inr demo
             else
               (case axios_get key params of
                  Inl e \<Rightarrow>
                    (case error_message e of
                       Inl t \<Rightarrow> Inl t
                     | Inr _ \<Rightarrow> Inr demo)
                | Inr d \<Rightarrow> Inr
                    \<lparr>fromToken = fromTokenInfo, toToken = toTokenInfo,
                     fromAmount = amount params,
                     toAmount = (if jsstring_truthy (data_toAmount d) then data_toAmount d
                                 else data_toTokenAmount d),
                     estimatedGas = jsstring_or (data_estimatedGas d) (Str ''250000''),
                     protocols = data_protocols d,
                     dex = ''1inch''\<rparr>))"

text \<open>
  The class declares \<open>getQuote\<close>, \<open>getTokenPrices\<close>, \<open>executeSwap\<close>,
  \<open>getSupportedTokens\<close>, \<open>getTokenInfo\<close> and \<open>getArbitrageOpportunities\<close>, and nothing
  else.  A call \<^verbatim>\<open>dexAggregator.buildSwapTransaction(params)\<close> therefore finds
  \<^verbatim>\<open>undefined\<close> under that name, and calling it throws a \<^verbatim>\<open>TypeError\<close>.
\<close>

definition buildSwapTransaction :: "DexAggregator \<Rightarrow> QuoteParams \<Rightarrow> exn + SwapQuote" where
  "buildSwapTransaction this params = Inl (NotAFunction ''dexAggregator.buildSwapTransaction'')"

section \<open>The trade executor (src/unnamed/part_000)\<close>

subsection \<open>Data\<close>

text \<open>
  Modelled from the spec: the declarations of \<open>BotConfig\<close> and \<open>ArbitrageOpportunity\<close>
  (\<^verbatim>\<open>./storage\<close>, \<^verbatim>\<open>./opportunityScanner\<close>) are not among the sources; the fields are those
  that the executor reads, with the types its expressions need.  A field that is
  \<^verbatim>\<open>null\<close> or \<^verbatim>\<open>undefined\<close> is \<open>None\<close>; \<open>enableRealTrading\<close> is the truthiness of the flag.
  The two thresholds are read through \<^verbatim>\<open>?.toString()\<close>, so they hold the resulting string.
\<close>

record BotConfig =
  enableRealTrading :: bool
  privateKey :: "string option"
  networkMode :: string
  maxGasPriceGwei :: "number option"
  minNetProfitPercent :: "jsstring option"
  telegramProfitThresholdUsd :: "jsstring option"
  oneinchApiKey :: "string option"

record Token =
  token_symbol :: string
  token_address :: string
  token_decimals :: nat

record ArbitrageOpportunity =
  opportunity_id :: string
  tokenIn :: Token
  tokenOut :: Token
  buyDex :: string
  sellDex :: string
  flashLoanAmount :: string
  estimatedProfitUsd :: number
  estimatedGasCostUsd :: number
  netProfitPercent :: number
  timestamp :: number

datatype result_message =
    Simulation_successful jsstring
  | Real_trade_executed string
  | Trade_execution_failed exn

text \<open>\<open>TradeExecutionResult\<close>.  \<open>error\<close> is the value of \<^verbatim>\<open>error.message\<close> that the source
  stores: \<open>Some e\<close> for the message of the \<^verbatim>\<open>Error\<close> \<open>e\<close>, \<open>None\<close> for
  \<^verbatim>\<open>undefined\<close>.  \<open>message\<close> is the text built around the caught value.\<close>

record TradeExecutionResult =
  success :: bool
  txHash :: "string option"
  profitUsd :: "number option"
  gasCostUsd :: "number option"
  message :: result_message
  error :: "exn option"
  executionTime :: "int option"

datatype tx_status = Status_success | Status_pending | Status_failed

text \<open>The record handed to \<^verbatim>\<open>storage.createArbitrageTransaction\<close>; \<open>dexPath\<close> is the pair
  of exchanges that the source joins with an arrow.\<close>

record ArbitrageTransaction =
  tx_txHash :: string
  tx_tokenIn :: string
  tx_tokenOut :: string
  amountIn :: jsstring
  amountOut :: jsstring
  tx_profitUsd :: jsstring
  tx_gasCostUsd :: jsstring
  netProfitUsd :: jsstring
  status :: tx_status
  dexPath :: "string \<times> string"

datatype log_level = Level_info | Level_warning | Level_error | Level_success

text \<open>An entry of the activity log.  The message texts of the source are not reproduced:
  an entry is identified by its level and its \<^verbatim>\<open>metadata.step\<close> (absent in the entry of
  the failure path), and carries the caught value it reports, if any.\<close>

record ActivityLog =
  level :: log_level
  step :: "string option"
  log_error :: "exn option"

datatype telegram_category = trade_success | trade_pending

subsection \<open>Collaborators\<close>

text \<open>
  Every call to a collaborator is recorded, in order, with its outcome.  A collaborator
  is any function of the calls made so far and of its arguments.
\<close>

datatype call =
    GetBotConfig string
  | CreateActivityLog string ActivityLog
  | CreateArbitrageTransaction string ArbitrageTransaction
  | GetNativeBalance string nat
  | GetGasPrice
  | SendTelegramMessage string telegram_category

datatype event = Returned call | Threw call exn

type_synonym history = "event list"

text \<open>
  \<^item> \<open>getBotConfig\<close>, \<open>createActivityLog\<close>, \<open>createArbitrageTransaction\<close>: \<^verbatim>\<open>storage\<close>
  \<^item> \<open>getNativeBalance\<close> (its \<^verbatim>\<open>balanceFormatted\<close>), \<open>getGasPrice\<close> (its
    \<^verbatim>\<open>gasPriceGwei\<close>): \<^verbatim>\<open>web3Provider\<close>
  \<^item> \<open>telegram\<close>: \<^verbatim>\<open>sendTelegramMessage\<close>, by the category of the message
  \<^item> \<open>Wallet_address\<close>: \<^verbatim>\<open>new ethers.Wallet(key).address\<close>; \<open>parseUnits\<close>:
    \<^verbatim>\<open>ethers.parseUnits\<close>
  \<^item> \<open>PRIVATE_KEY\<close>: \<^verbatim>\<open>process.env.PRIVATE_KEY\<close>
  \<^item> \<open>Date_now\<close>: \<^verbatim>\<open>Date.now()\<close>; \<open>Math_random_hex h k\<close>: the text
    \<^verbatim>\<open>Math.random().toString(16).substring(2)\<close> of the \<open>k\<close>-th draw.
  For the calls that return nothing, \<open>None\<close> is a normal return and \<open>Some e\<close> a throw.
\<close>

record collaborators =
  getBotConfig :: "history \<Rightarrow> string \<Rightarrow> exn + BotConfig option"
  createActivityLog :: "history \<Rightarrow> string \<Rightarrow> ActivityLog \<Rightarrow> exn option"
  createArbitrageTransaction :: "history \<Rightarrow> string \<Rightarrow> ArbitrageTransaction \<Rightarrow> exn option"
  getNativeBalance :: "history \<Rightarrow> string \<Rightarrow> nat \<Rightarrow> exn + jsstring"
  getGasPrice :: "history \<Rightarrow> exn + jsstring"
  telegram :: "history \<Rightarrow> string \<Rightarrow> telegram_category \<Rightarrow> exn option"
  Wallet_address :: "string \<Rightarrow> exn + string"
  parseUnits :: "string \<Rightarrow> nat \<Rightarrow> exn + int"
  PRIVATE_KEY :: "string option"
  Date_now :: "history \<Rightarrow> int"
  Math_random_hex :: "history \<Rightarrow> nat \<Rightarrow> string"

text \<open>An asynchronous computation: from the calls made so far to a result or a thrown
  value, and the calls made then.\<close>

type_synonym 'a io = "history \<Rightarrow> (exn + 'a) \<times> history"

definition io_return :: "'a \<Rightarrow> 'a io" where
  "io_return x h = (Inr x, h)"

definition io_throw :: "exn \<Rightarrow> 'a io" where
  "io_throw e h = (Inl e, h)"

definition io_bind :: "'a io \<Rightarrow> ('a \<Rightarrow> 'b io) \<Rightarrow> 'b io" where
  "io_bind m f h = (case m h of (Inl e, h') \<Rightarrow> (Inl e, h') | (Inr x, h') \<Rightarrow> f x h')"

definition io_catch :: "'a io \<Rightarrow> (exn \<Rightarrow> 'a io) \<Rightarrow> 'a io" where
  "io_catch m handler h = (case m h of (Inl e, h') \<Rightarrow> handler e h' | (Inr x, h') \<Rightarrow> (Inr x, h'))"

definition io_of :: "exn + 'a \<Rightarrow> 'a io" where
  "io_of r h = (r, h)"

definition call_unit :: "exn option \<Rightarrow> call \<Rightarrow> unit io" where
  "call_unit outcome cl h =
     (case outcome of
        None \<Rightarrow> (Inr (), h @ [Returned cl])
      | Some e \<Rightarrow> (Inl e, h @ [Threw cl e]))"

definition call_value :: "exn + 'a \<Rightarrow> call \<Rightarrow> 'a io" where
  "call_value outcome cl h =
     (case outcome of
        Inr x \<Rightarrow> (Inr x, h @ [Returned cl])
      | Inl e \<Rightarrow> (Inl e, h @ [Threw cl e]))"

definition storage_getBotConfig :: "collaborators \<Rightarrow> string \<Rightarrow> BotConfig option io" where
  "storage_getBotConfig c userId h = call_value (getBotConfig c h userId) (GetBotConfig userId) h"

definition storage_createActivityLog :: "collaborators \<Rightarrow> string \<Rightarrow> ActivityLog \<Rightarrow> unit io" where
  "storage_createActivityLog c userId entry h =
     call_unit (createActivityLog c h userId entry) (CreateActivityLog userId entry) h"

definition storage_createArbitrageTransaction ::
  "collaborators \<Rightarrow> string \<Rightarrow> ArbitrageTransaction \<Rightarrow> unit io" where
  "storage_createArbitrageTransaction c userId tx h =
     call_unit (createArbitrageTransaction c h userId tx) (CreateArbitrageTransaction userId tx) h"

definition web3Provider_getNativeBalance :: "collaborators \<Rightarrow> string \<Rightarrow> nat \<Rightarrow> jsstring io" where
  "web3Provider_getNativeBalance c addr chainId h =
     call_value (getNativeBalance c h addr chainId) (GetNativeBalance addr chainId) h"

definition web3Provider_getGasPrice :: "collaborators \<Rightarrow> jsstring io" where
  "web3Provider_getGasPrice c h = call_value (getGasPrice c h) GetGasPrice h"

definition sendTelegramMessage :: "collaborators \<Rightarrow> string \<Rightarrow> telegram_category \<Rightarrow> unit io" where
  "sendTelegramMessage c userId category h =
     call_unit (telegram c h userId category) (SendTelegramMessage userId category) h"

definition log_entry :: "log_level \<Rightarrow> string \<Rightarrow> ActivityLog" where
  "log_entry l s = \<lparr>level = l, step = Some s, log_error = None\<rparr>"

definition io_history :: "history io" where
  "io_history h = (Inr h, h)"

definition int_to_string :: "int \<Rightarrow> string" where
  "int_to_string i = (if i < 0 then ''-'' @ digits_of (nat (- i)) else digits_of (nat i))"

text \<open>What \<open>buildSwapTransaction\<close> is expected to return, as far as the executor reads it.\<close>

record BuiltSwap =
  swap_toAmount :: jsstring

definition dexAggregator_buildSwapTransaction :: "DexAggregator \<Rightarrow> QuoteParams \<Rightarrow> BuiltSwap io" where
  "dexAggregator_buildSwapTransaction this params =
     (case buildSwapTransaction this params of
        Inl e \<Rightarrow> io_throw e
      | Inr q \<Rightarrow> io_return \<lparr>swap_toAmount = (case toAmount q of None \<Rightarrow> Str [] | Some a \<Rightarrow> a)\<rparr>)"

subsection \<open>executeArbitrageTrade\<close>

text \<open>Step 5 (lines 93-135): the check of the MATIC balance, inside its own
  \<^verbatim>\<open>try\<close>/\<^verbatim>\<open>catch\<close>.  The local \<^verbatim>\<open>maticBalance\<close> only feeds the metadata of a later log
  entry and is not kept.  The handler reads \<^verbatim>\<open>error.message\<close> (line 128) to build the
  warning entry, before the call that writes it.\<close>

definition check_matic_balance ::
  "collaborators \<Rightarrow> string \<Rightarrow> BotConfig \<Rightarrow> bool \<Rightarrow> string option \<Rightarrow> unit io" where
  "check_matic_balance c userId config isSimulation key =
     (case key of
        None \<Rightarrow> io_return ()
      | Some k \<Rightarrow>
          if isSimulation \<or> k = [] then io_return ()
          else
            io_catch
              (io_bind (io_of (Wallet_address c k)) (\<lambda>walletAddress.
               let chainId = (if networkMode config = ''mainnet'' then 137 else 80002) in
               io_bind (web3Provider_getNativeBalance c walletAddress chainId) (\<lambda>maticBalance.
               let minMaticRequired = fl 1 10;
                   currentMatic = parseFloat maticBalance in
               io_bind (storage_createActivityLog c userId
                          (log_entry Level_info ''3_balance_check'')) (\<lambda>_.
               if number_lt currentMatic minMaticRequired
               then io_throw (InsufficientMaticBalance (toFixed 4 currentMatic))
               else io_return ()))))
              (\<lambda>err.
                 io_bind (io_of (error_message err)) (\<lambda>_.
                 storage_createActivityLog c userId
                   \<lparr>level = Level_warning, step = Some ''3_balance_check_failed'',
                    log_error = Some err\<rparr>)))"

text \<open>Step 6 (lines 137-167): the check of the gas price.\<close>

definition check_gas_price :: "collaborators \<Rightarrow> string \<Rightarrow> BotConfig \<Rightarrow> unit io" where
  "check_gas_price c userId config =
     io_bind (web3Provider_getGasPrice c) (\<lambda>gasPriceGwei.
     let currentGasGwei = parseFloat gasPriceGwei in
     io_bind (storage_createActivityLog c userId (log_entry Level_info ''4_gas_check'')) (\<lambda>_.
     if number_gt currentGasGwei (number_or (maxGasPriceGwei config) (fl 60 1)) then
       io_bind (storage_createActivityLog c userId
                  (log_entry Level_error ''4_gas_too_high'')) (\<lambda>_.
       io_throw (GasPriceTooHigh currentGasGwei (maxGasPriceGwei config)))
     else io_return ()))"

definition random_hash :: "collaborators \<Rightarrow> history \<Rightarrow> string" where
  "random_hash c h = ''0x'' @ Math_random_hex c h 0 @ Math_random_hex c h 1"

text \<open>The simulation branch (lines 169-236).\<close>

definition simulate_trade ::
  "collaborators \<Rightarrow> string \<Rightarrow> ArbitrageOpportunity \<Rightarrow> BotConfig \<Rightarrow> int
     \<Rightarrow> TradeExecutionResult io" where
  "simulate_trade c userId opportunity config startTime =
     io_bind (storage_createActivityLog c userId
                (log_entry Level_info ''5_mock_transaction'')) (\<lambda>_.
     io_bind (storage_createActivityLog c userId (log_entry Level_success ''7_completed'')) (\<lambda>_.
     io_bind io_history (\<lambda>h.
     let mockTxHash = random_hash c h in
     io_bind (storage_createArbitrageTransaction c userId
                \<lparr>tx_txHash = mockTxHash,
                 tx_tokenIn = token_symbol (tokenIn opportunity),
                 tx_tokenOut = token_symbol (tokenOut opportunity),
                 amountIn = Str (flashLoanAmount opportunity),
                 amountOut = NumberToString
                   (number_times (parseFloat (Str (flashLoanAmount opportunity))) (fl 101 100)),
                 tx_profitUsd = NumberToString (estimatedProfitUsd opportunity),
                 tx_gasCostUsd = NumberToString (estimatedGasCostUsd opportunity),
                 netProfitUsd = NumberToString
                   (number_minus (estimatedProfitUsd opportunity)
                      (estimatedGasCostUsd opportunity)),
                 status = Status_success,
                 dexPath = (buyDex opportunity, sellDex opportunity)\<rparr>) (\<lambda>_.
     let profitThreshold =
           parseFloat (jsstring_or (telegramProfitThresholdUsd config) (Str ''10'')) in
     io_bind (if number_ge (estimatedProfitUsd opportunity) profitThreshold
              then sendTelegramMessage c userId trade_success
              else io_return ()) (\<lambda>_.
     io_bind io_history (\<lambda>h'.
     io_return
       \<lparr>success = True,
        txHash = Some mockTxHash,
        profitUsd = Some (estimatedProfitUsd opportunity),
        gasCostUsd = Some (estimatedGasCostUsd opportunity),
        message = Simulation_successful (toFixed 2 (estimatedProfitUsd opportunity)),
        error = None,
        executionTime = Some (Date_now c h' - startTime)\<rparr>))))))"

text \<open>The real-trading branch (lines 238-344).\<close>

definition real_trade ::
  "collaborators \<Rightarrow> string \<Rightarrow> ArbitrageOpportunity \<Rightarrow> BotConfig \<Rightarrow> int
     \<Rightarrow> TradeExecutionResult io" where
  "real_trade c userId opportunity config startTime =
     io_bind (storage_createActivityLog c userId
                (log_entry Level_warning ''5_real_execution'')) (\<lambda>_.
     io_bind (io_of (parseUnits c (flashLoanAmount opportunity)
                       (token_decimals (tokenIn opportunity)))) (\<lambda>loanAmount.
     let dexAggregator = DexAggregator_new (string_or (oneinchApiKey config) None) in
     io_bind (dexAggregator_buildSwapTransaction dexAggregator
                \<lparr>src = token_address (tokenIn opportunity),
                 dst = token_address (tokenOut opportunity),
                 amount = Str (int_to_string loanAmount),
                 from_address = privateKey config\<rparr>) (\<lambda>buySwap.
     io_bind (dexAggregator_buildSwapTransaction dexAggregator
                \<lparr>src = token_address (tokenOut opportunity),
                 dst = token_address (tokenIn opportunity),
                 amount = swap_toAmount buySwap,
                 from_address = privateKey config\<rparr>) (\<lambda>sellSwap.
     io_bind (storage_createActivityLog c userId
                (log_entry Level_info ''6_swap_preparation'')) (\<lambda>_.
     io_bind io_history (\<lambda>h.
     let realTxHash = random_hash c h in
     io_bind (storage_createArbitrageTransaction c userId
                \<lparr>tx_txHash = realTxHash,
                 tx_tokenIn = token_symbol (tokenIn opportunity),
                 tx_tokenOut = token_symbol (tokenOut opportunity),
                 amountIn = Str (flashLoanAmount opportunity),
                 amountOut = swap_toAmount buySwap,
                 tx_profitUsd = NumberToString (estimatedProfitUsd opportunity),
                 tx_gasCostUsd = NumberToString (estimatedGasCostUsd opportunity),
                 netProfitUsd = NumberToString
                   (number_minus (estimatedProfitUsd opportunity)
                      (estimatedGasCostUsd opportunity)),
                 status = Status_pending,
                 dexPath = (buyDex opportunity, sellDex opportunity)\<rparr>) (\<lambda>_.
     io_bind (storage_createActivityLog c userId
                (log_entry Level_success ''7_transaction_sent'')) (\<lambda>_.
     io_bind (sendTelegramMessage c userId trade_pending) (\<lambda>_.
     io_bind io_history (\<lambda>h'.
     io_return
       \<lparr>success = True,
        txHash = Some realTxHash,
        profitUsd = Some (estimatedProfitUsd opportunity),
        gasCostUsd = Some (estimatedGasCostUsd opportunity),
        message = Real_trade_executed realTxHash,
        error = None,
        executionTime = Some (Date_now c h' - startTime)\<rparr>))))))))))"

text \<open>The body of the outer \<^verbatim>\<open>try\<close> (lines 31-344).\<close>

definition try_block ::
  "collaborators \<Rightarrow> string \<Rightarrow> ArbitrageOpportunity \<Rightarrow> bool \<Rightarrow> int \<Rightarrow> TradeExecutionResult io" where
  "try_block c userId opportunity isSimulation startTime =
     io_bind (storage_createActivityLog c userId (log_entry Level_info ''1_validation'')) (\<lambda>_.
     io_bind (storage_getBotConfig c userId) (\<lambda>found.
     case found of
       None \<Rightarrow> io_throw BotConfigNotFound
     | Some config \<Rightarrow>
         if \<not> isSimulation \<and> \<not> enableRealTrading config then io_throw RealTradingDisabled
         else
           let key = string_or (privateKey config) (PRIVATE_KEY c) in
           io_bind (if \<not> isSimulation \<and> \<not> string_truthy key
                    then io_bind (storage_createActivityLog c userId
                                    (log_entry Level_error ''2_validation_failed'')) (\<lambda>_.
                         io_throw PrivateKeyNotConfigured)
                    else io_return ()) (\<lambda>_.
           io_bind (storage_createActivityLog c userId
                      (log_entry Level_info ''2_key_validation'')) (\<lambda>_.
           io_bind (check_matic_balance c userId config isSimulation key) (\<lambda>_.
           io_bind (check_gas_price c userId config) (\<lambda>_.
           if isSimulation then simulate_trade c userId opportunity config startTime
           else real_trade c userId opportunity config startTime))))))"

text \<open>The outer \<^verbatim>\<open>catch\<close> (lines 346-381).  Its first statement (line 347) reads
  \<^verbatim>\<open>error.message\<close>; the two writes follow, neither of them guarded.\<close>

definition failed_transaction :: "ArbitrageOpportunity \<Rightarrow> ArbitrageTransaction" where
  "failed_transaction opportunity =
     \<lparr>tx_txHash = ''0x0'',
      tx_tokenIn = token_symbol (tokenIn opportunity),
      tx_tokenOut = token_symbol (tokenOut opportunity),
      amountIn = Str (flashLoanAmount opportunity),
      amountOut = Str ''0'',
      tx_profitUsd = Str ''0'',
      tx_gasCostUsd = Str ''0'',
      netProfitUsd = Str ''0'',
      status = Status_failed,
      dexPath = (buyDex opportunity, sellDex opportunity)\<rparr>"

definition failure_log :: "exn \<Rightarrow> ActivityLog" where
  "failure_log err = \<lparr>level = Level_error, step = None, log_error = Some err\<rparr>"

definition catch_block ::
  "collaborators \<Rightarrow> string \<Rightarrow> ArbitrageOpportunity \<Rightarrow> int \<Rightarrow> exn \<Rightarrow> TradeExecutionResult io" where
  "catch_block c userId opportunity startTime err =
     io_bind (io_of (error_message err)) (\<lambda>msg.
     io_bind (storage_createActivityLog c userId (failure_log err)) (\<lambda>_.
     io_bind (storage_createArbitrageTransaction c userId (failed_transaction opportunity)) (\<lambda>_.
     io_bind io_history (\<lambda>h'.
     io_return
       \<lparr>success = False,
        txHash = None,
        profitUsd = None,
        gasCostUsd = None,
        message = Trade_execution_failed err,
        error = msg,
        executionTime = Some (Date_now c h' - startTime)\<rparr>))))"

text \<open>\<open>executeArbitrageTrade\<close>: \<open>Inr\<close> is the result the promise resolves to, \<open>Inl\<close> the
  value it rejects with.\<close>

definition executeArbitrageTrade ::
  "collaborators \<Rightarrow> string \<Rightarrow> ArbitrageOpportunity \<Rightarrow> bool \<Rightarrow> TradeExecutionResult io" where
  "executeArbitrageTrade c userId opportunity isSimulation h =
     (let startTime = Date_now c h
      in io_catch (try_block c userId opportunity isSimulation startTime)
           (catch_block c userId opportunity startTime) h)"

subsection \<open>validateOpportunity\<close>

text \<open>Lines 387-412.  The result is the boolean the promise resolves to; the function has
  no path on which it rejects.\<close>

definition validateOpportunity ::
  "collaborators \<Rightarrow> string \<Rightarrow> ArbitrageOpportunity \<Rightarrow> history \<Rightarrow> bool \<times> history" where
  "validateOpportunity c userId opportunity h =
     (case storage_getBotConfig c userId h of
        (Inl e, h') \<Rightarrow> (False, h')
      | (Inr config, h') \<Rightarrow>
          let ageMs = number_minus (fl (Date_now c h') 1) (timestamp opportunity) in
          if number_gt ageMs (fl 30000 1) then (False, h')
          else if number_lt (netProfitPercent opportunity)
                    (parseFloat (jsstring_or
                       (case config of None \<Rightarrow> None | Some cfg \<Rightarrow> minNetProfitPercent cfg)
                       (Str ''0.15'')))
          then (False, h')
          else (True, h'))"

subsection \<open>What a history shows\<close>

text \<open>The transaction records stored, the notifications sent, and the queries made to
  the network, in order.\<close>

fun written :: "history \<Rightarrow> ArbitrageTransaction list" where
  "written [] = []"
| "written (Returned (CreateArbitrageTransaction u tx) # h) = tx # written h"
| "written (_ # h) = written h"

fun notified :: "history \<Rightarrow> telegram_category list" where
  "notified [] = []"
| "notified (Returned (SendTelegramMessage u k) # h) = k # notified h"
| "notified (_ # h) = notified h"

fun is_network_query :: "event \<Rightarrow> bool" where
  "is_network_query (Returned (GetNativeBalance a n)) = True"
| "is_network_query (Threw (GetNativeBalance a n) e) = True"
| "is_network_query (Returned GetGasPrice) = True"
| "is_network_query (Threw GetGasPrice e) = True"
| "is_network_query _ = False"

definition network_queries :: "history \<Rightarrow> event list" where
  "network_queries h = filter is_network_query h"

fun logged :: "history \<Rightarrow> ActivityLog list" where
  "logged [] = []"
| "logged (Returned (CreateActivityLog u entry) # h) = entry # logged h"
| "logged (_ # h) = logged h"

text \<open>The pairs of addresses that the chain of comparisons of \<open>getQuote\<close> recognises.\<close>

definition hardcoded_pairs :: "(string \<times> string) list" where
  "hardcoded_pairs = [(MATIC, USDC), (USDC, MATIC), (WMATIC, USDC), (USDC, WETH), (WETH, USDC)]"

section \<open>Concrete inputs\<close>

text \<open>An opportunity, a configuration and collaborators that all answer; the variants
  below change one collaborator or one field each.\<close>

definition opportunity0 :: ArbitrageOpportunity where
  "opportunity0 =
     \<lparr>opportunity_id = ''opp-1'',
      tokenIn = \<lparr>token_symbol = ''WMATIC'', token_address = WMATIC, token_decimals = 18\<rparr>,
      tokenOut = \<lparr>token_symbol = ''USDC'', token_address = USDC, token_decimals = 6\<rparr>,
      buyDex = ''QuickSwap'',
      sellDex = ''1inch'',
      flashLoanAmount = ''1000'',
      estimatedProfitUsd = Fin 25 0,
      estimatedGasCostUsd = Fin 2 0,
      netProfitPercent = Fin 1 (- 1),
      timestamp = Fin 1700000000000 0\<rparr>"

definition opportunity_small_profit :: ArbitrageOpportunity where
  "opportunity_small_profit = opportunity0\<lparr>estimatedProfitUsd := Fin 5 0\<rparr>"

definition opportunity_stale :: ArbitrageOpportunity where
  "opportunity_stale = opportunity0\<lparr>timestamp := Fin 1699999960000 0, netProfitPercent := Fin 50 0\<rparr>"

definition opportunity_thin :: ArbitrageOpportunity where
  "opportunity_thin = opportunity0\<lparr>netProfitPercent := Fin 1 (- 4)\<rparr>"

definition config0 :: BotConfig where
  "config0 =
     \<lparr>enableRealTrading = True,
      privateKey = Some ''0x0123456789abcdef'',
      networkMode = ''mainnet'',
      maxGasPriceGwei = Some (Fin 60 0),
      minNetProfitPercent = None,
      telegramProfitThresholdUsd = Some (Str ''10''),
      oneinchApiKey = None\<rparr>"

definition config_no_key :: BotConfig where
  "config_no_key = config0\<lparr>privateKey := None\<rparr>"

definition config_disabled_no_key :: BotConfig where
  "config_disabled_no_key = config0\<lparr>enableRealTrading := False, privateKey := None\<rparr>"

definition config_zero_ceiling :: BotConfig where
  "config_zero_ceiling = config0\<lparr>maxGasPriceGwei := Some (Fin 0 0)\<rparr>"

definition found_config0 :: "history \<Rightarrow> string \<Rightarrow> exn + BotConfig option" where
  "found_config0 h userId = Inr (Some config0)"

definition found_config_no_key :: "history \<Rightarrow> string \<Rightarrow> exn + BotConfig option" where
  "found_config_no_key h userId = Inr (Some config_no_key)"

definition found_config_disabled_no_key :: "history \<Rightarrow> string \<Rightarrow> exn + BotConfig option" where
  "found_config_disabled_no_key h userId = Inr (Some config_disabled_no_key)"

definition config_unavailable :: "history \<Rightarrow> string \<Rightarrow> exn + BotConfig option" where
  "config_unavailable h userId = Inl (Thrown ''database unavailable'')"

definition accept_log :: "history \<Rightarrow> string \<Rightarrow> ActivityLog \<Rightarrow> exn option" where
  "accept_log h userId entry = None"

definition reject_log :: "history \<Rightarrow> string \<Rightarrow> ActivityLog \<Rightarrow> exn option" where
  "reject_log h userId entry = Some (Thrown ''database unavailable'')"

definition accept_transaction :: "history \<Rightarrow> string \<Rightarrow> ArbitrageTransaction \<Rightarrow> exn option" where
  "accept_transaction h userId tx = None"

definition balance_5 :: "history \<Rightarrow> string \<Rightarrow> nat \<Rightarrow> exn + jsstring" where
  "balance_5 h addr chainId = Inr (Str ''5.0'')"

definition balance_0_05 :: "history \<Rightarrow> string \<Rightarrow> nat \<Rightarrow> exn + jsstring" where
  "balance_0_05 h addr chainId = Inr (Str ''0.05'')"

definition gas_30 :: "history \<Rightarrow> exn + jsstring" where
  "gas_30 h = Inr (Str ''30'')"

definition gas_80 :: "history \<Rightarrow> exn + jsstring" where
  "gas_80 h = Inr (Str ''80'')"

definition accept_telegram :: "history \<Rightarrow> string \<Rightarrow> telegram_category \<Rightarrow> exn option" where
  "accept_telegram h userId category = None"

definition reject_telegram :: "history \<Rightarrow> string \<Rightarrow> telegram_category \<Rightarrow> exn option" where
  "reject_telegram h userId category = Some (Thrown ''telegram unreachable'')"

definition wallet_ok :: "string \<Rightarrow> exn + string" where
  "wallet_ok key = Inr ''0xWalletAddress''"

definition parseUnits_ok :: "string \<Rightarrow> nat \<Rightarrow> exn + int" where
  "parseUnits_ok v d = Inr (1000 * 10 ^ d)"

definition clock :: "history \<Rightarrow> int" where
  "clock h = 1700000000000 + int (length h)"

definition fixed_hex :: "history \<Rightarrow> nat \<Rightarrow> string" where
  "fixed_hex h k = ''8f3a91c2''"

definition collaborators0 :: collaborators where
  "collaborators0 =
     \<lparr>getBotConfig = found_config0,
      createActivityLog = accept_log,
      createArbitrageTransaction = accept_transaction,
      getNativeBalance = balance_5,
      getGasPrice = gas_30,
      telegram = accept_telegram,
      Wallet_address = wallet_ok,
      parseUnits = parseUnits_ok,
      PRIVATE_KEY = None,
      Date_now = clock,
      Math_random_hex = fixed_hex\<rparr>"

definition collaborators_log_down :: collaborators where
  "collaborators_log_down = collaborators0\<lparr>createActivityLog := reject_log\<rparr>"

definition collaborators_telegram_down :: collaborators where
  "collaborators_telegram_down = collaborators0\<lparr>telegram := reject_telegram\<rparr>"

definition collaborators_low_balance :: collaborators where
  "collaborators_low_balance = collaborators0\<lparr>getNativeBalance := balance_0_05\<rparr>"

definition collaborators_low_balance_high_gas :: collaborators where
  "collaborators_low_balance_high_gas =
     collaborators0\<lparr>getNativeBalance := balance_0_05, getGasPrice := gas_80\<rparr>"

definition collaborators_no_key :: collaborators where
  "collaborators_no_key = collaborators0\<lparr>getBotConfig := found_config_no_key\<rparr>"

definition collaborators_disabled_no_key :: collaborators where
  "collaborators_disabled_no_key = collaborators0\<lparr>getBotConfig := found_config_disabled_no_key\<rparr>"

definition collaborators_config_down :: collaborators where
  "collaborators_config_down = collaborators0\<lparr>getBotConfig := config_unavailable\<rparr>"

text \<open>A gas oracle that rejects with \<^verbatim>\<open>undefined\<close>, one that rejects with a string, and a
  record store that is down.\<close>

definition gas_rejects_undefined :: "history \<Rightarrow> exn + jsstring" where
  "gas_rejects_undefined h = Inl NullishValue"

definition gas_rejects_string :: "history \<Rightarrow> exn + jsstring" where
  "gas_rejects_string h = Inl (ValueWithoutMessage ''timeout'')"

definition reject_transaction :: "history \<Rightarrow> string \<Rightarrow> ArbitrageTransaction \<Rightarrow> exn option" where
  "reject_transaction h userId tx = Some (Thrown ''database unavailable'')"

definition collaborators_gas_undefined :: collaborators where
  "collaborators_gas_undefined = collaborators0\<lparr>getGasPrice := gas_rejects_undefined\<rparr>"

definition collaborators_gas_string :: collaborators where
  "collaborators_gas_string = collaborators0\<lparr>getGasPrice := gas_rejects_string\<rparr>"

definition collaborators_store_down :: collaborators where
  "collaborators_store_down = collaborators0\<lparr>createArbitrageTransaction := reject_transaction\<rparr>"

text \<open>A quote request that is never answered, and three requests.\<close>

definition no_axios :: "string \<Rightarrow> QuoteParams \<Rightarrow> exn + quote_response" where
  "no_axios key params = Inl (Thrown ''network unreachable'')"

definition demo_aggregator :: DexAggregator where
  "demo_aggregator = DexAggregator_new None"

definition matic_usdc_one :: QuoteParams where
  "matic_usdc_one = \<lparr>src = MATIC, dst = USDC, amount = Str ''1'', from_address = None\<rparr>"

definition matic_usdc_tiny :: QuoteParams where
  "matic_usdc_tiny = \<lparr>src = MATIC, dst = USDC, amount = Str ''0.0000001'', from_address = None\<rparr>"

definition dai_wbtc_five :: QuoteParams where
  "dai_wbtc_five = \<lparr>src = DAI, dst = WBTC, amount = Str ''5'', from_address = None\<rparr>"

section \<open>Evaluation\<close>

declare bitlen.simps [simp del]
declare normalize_dyadic.simps [simp del]
declare digits_of.simps [simp del]
declare number_times.simps [simp del]
declare number_divide.simps [simp del]
declare number_minus.simps [simp del]

text \<open>The recursive helpers are unfolded at numerals only.\<close>

lemma bitlen_eval:
  "bitlen 0 = 0"
  "bitlen 1 = 1"
  "bitlen (Suc 0) = 1"
  "bitlen (numeral k) = Suc (bitlen (numeral k div 2))"
  by (simp_all add: bitlen.simps [of 0] bitlen.simps [of 1] bitlen.simps [of "Suc 0"]
      bitlen.simps [of "numeral k"])

lemma normalize_dyadic_eval:
  "normalize_dyadic 0 e = Fin 0 0"
  "normalize_dyadic 1 e = Fin 1 e"
  "normalize_dyadic (- 1) e = Fin (- 1) e"
  "normalize_dyadic (numeral k) e =
     (if even (numeral k :: int) then normalize_dyadic (numeral k div 2) (e + 1)
      else Fin (numeral k) e)"
  "normalize_dyadic (- numeral k) e =
     (if even (numeral k :: int) then normalize_dyadic (- numeral k div 2) (e + 1)
      else Fin (- numeral k) e)"
  by (simp_all add: normalize_dyadic.simps [of 0] normalize_dyadic.simps [of 1]
      normalize_dyadic.simps [of "- 1"] normalize_dyadic.simps [of "numeral k"]
      normalize_dyadic.simps [of "- numeral k"])

lemma digits_of_eval:
  "digits_of 0 = ''0''"
  "digits_of 1 = ''1''"
  "digits_of (Suc 0) = ''1''"
  "digits_of (numeral k) =
     (if (numeral k :: nat) < 10 then [digit_char (numeral k)]
      else digits_of (numeral k div 10) @ [digit_char (numeral k mod 10)])"
  by (simp_all add: digits_of.simps [of 0] digits_of.simps [of 1] digits_of.simps [of "Suc 0"]
      digits_of.simps [of "numeral k"] digit_char_def)

lemmas number_eval =
  fl_def fl_pos_def fl_dyadic_def ilog2_def pow2le_def round_half_even_def bitlen_eval
  normalize_dyadic_eval number_times.simps number_divide.simps number_minus.simps Let_def

lemmas string_eval =
  parseFloat_chars_def exponent_part_def digits_value_def digit_value_def is_digit_def
  is_whitespace_def Let_def

lemma replicate_eval: "replicate (numeral k) x = x # replicate (numeral k - 1) x"
  by (simp add: numeral_eq_Suc)

lemmas toFixed_eval = toFixed_def digits_of_eval digit_char_def replicate_eval Let_def

lemmas io_defs =
  io_return_def io_throw_def io_bind_def io_catch_def io_of_def io_history_def
  call_unit_def call_value_def storage_getBotConfig_def storage_createActivityLog_def
  storage_createArbitrageTransaction_def web3Provider_getNativeBalance_def
  web3Provider_getGasPrice_def sendTelegramMessage_def

lemmas pipeline_defs =
  executeArbitrageTrade_def try_block_def catch_block_def check_matic_balance_def
  check_gas_price_def simulate_trade_def real_trade_def dexAggregator_buildSwapTransaction_def
  buildSwapTransaction_def random_hash_def log_entry_def failure_log_def
  failed_transaction_def string_or_def number_or_def jsstring_or_def

lemmas fixture_defs =
  opportunity0_def opportunity_small_profit_def opportunity_stale_def opportunity_thin_def
  config0_def config_no_key_def config_disabled_no_key_def config_zero_ceiling_def
  found_config0_def found_config_no_key_def found_config_disabled_no_key_def
  config_unavailable_def accept_log_def reject_log_def accept_transaction_def balance_5_def
  balance_0_05_def gas_30_def gas_80_def accept_telegram_def reject_telegram_def wallet_ok_def
  parseUnits_ok_def clock_def fixed_hex_def collaborators0_def collaborators_log_down_def
  collaborators_telegram_down_def collaborators_low_balance_def
  collaborators_low_balance_high_gas_def collaborators_no_key_def
  collaborators_disabled_no_key_def collaborators_config_down_def
  gas_rejects_undefined_def gas_rejects_string_def reject_transaction_def
  collaborators_gas_undefined_def collaborators_gas_string_def collaborators_store_down_def

text \<open>The decimal literals of the source and the strings of the concrete inputs, as doubles.\<close>

lemma fl_one_tenth: "fl 1 10 = Fin 3602879701896397 (- 55)"
  by (simp add: number_eval)

lemma fl_seven_tenths: "fl 7 10 = Fin 3152519739159347 (- 52)"
  by (simp add: number_eval)

lemma fl_60: "fl 60 1 = Fin 15 2"
  by (simp add: number_eval)

lemma fl_30000: "fl 30000 1 = Fin 1875 4"
  by (simp add: number_eval)

lemma parseFloat_5_0: "parseFloat_chars ''5.0'' = Fin 5 0"
  by (simp add: string_eval) (simp add: number_eval)

lemma parseFloat_0_05: "parseFloat_chars ''0.05'' = Fin 3602879701896397 (- 56)"
  by (simp add: string_eval) (simp add: number_eval)

lemma parseFloat_30: "parseFloat_chars ''30'' = Fin 15 1"
  by (simp add: string_eval) (simp add: number_eval)

lemma parseFloat_80: "parseFloat_chars ''80'' = Fin 5 4"
  by (simp add: string_eval) (simp add: number_eval)

lemma parseFloat_10: "parseFloat_chars ''10'' = Fin 5 1"
  by (simp add: string_eval) (simp add: number_eval)

lemma parseFloat_0_15: "parseFloat_chars ''0.15'' = Fin 5404319552844595 (- 55)"
  by (simp add: string_eval) (simp add: number_eval)

lemma parseFloat_1: "parseFloat_chars ''1'' = Fin 1 0"
  by (simp add: string_eval) (simp add: number_eval)

lemma parseFloat_tiny: "parseFloat_chars ''0.0000001'' = Fin 944473296573929 (- 73)"
  by (simp add: string_eval) (simp add: number_eval)

lemma parseFloat_zeros: "parseFloat_chars ''0.000000'' = Fin 0 0"
  by (simp add: string_eval) (simp add: number_eval)

lemma toFixed_balance: "toFixed 4 (Fin 3602879701896397 (- 56)) = Str ''0.0500''"
  by (simp add: toFixed_eval)

lemma toFixed_profit: "toFixed 2 (Fin 25 0) = Str ''25.00''"
  by (simp add: toFixed_eval)

lemma times_one: "number_times (Fin 1 0) (Fin 3152519739159347 (- 52)) = Fin 3152519739159347 (- 52)"
  by (simp add: number_eval)

lemma times_tiny:
  "number_times (Fin 944473296573929 (- 73)) (Fin 3152519739159347 (- 52)) =
     Fin 2644525230407001 (- 75)"
  by (simp add: number_eval)

lemma toFixed_one: "toFixed 6 (Fin 3152519739159347 (- 52)) = Str ''0.700000''"
  by (simp add: toFixed_eval)

lemma toFixed_tiny: "toFixed 6 (Fin 2644525230407001 (- 75)) = Str ''0.000000''"
  by (simp add: toFixed_eval)

lemmas literal_eval =
  fl_one_tenth fl_seven_tenths fl_60 fl_30000 parseFloat_5_0 parseFloat_0_05 parseFloat_30
  parseFloat_80 parseFloat_10 parseFloat_0_15 parseFloat_1 parseFloat_tiny parseFloat_zeros
  toFixed_balance toFixed_profit times_one times_tiny toFixed_one toFixed_tiny

lemma addresses_distinct: "DAI \<noteq> MATIC" "DAI \<noteq> USDC" "DAI \<noteq> WMATIC" "DAI \<noteq> WETH"
  by (simp_all add: DAI_def MATIC_def USDC_def WMATIC_def WETH_def)

section \<open>The quote source without an API key\<close>

text \<open>
  At an input amount of \<^verbatim>\<open>0.0000001\<close> for MATIC to USDC the demo mode answers
  \<^verbatim>\<open>0.000000\<close>, which is not the input multiplied by 0.7: the product is written with
  six decimals.
\<close>

theorem getQuote_demo_rounds_to_six_decimals:
  "(\<exists>q. getQuote demo_aggregator no_axios (Fin 1 (- 2)) matic_usdc_tiny = Inr q
       \<and> toAmount q = Some (Str ''0.000000''))
   \<and> parseFloat (Str ''0.000000'') \<noteq>
       number_times (parseFloat (amount matic_usdc_tiny)) (fl 7 10)"
  by (simp add: getQuote_def estimatedToAmount_def demo_aggregator_def DexAggregator_new_def
      string_or_def matic_usdc_tiny_def Let_def literal_eval)

text \<open>
  C9 (as amended): with no API key, \<open>getQuote\<close> returns a quote whose output amount depends
  on the request only (not on the network, not on the random draw); for MATIC to USDC it is
  the input
  amount multiplied by 0.7 and written by \<^verbatim>\<open>toFixed(6)\<close>, that is, rounded to six decimals;
  for a pair outside the hardcoded table it is the input amount itself.
\<close>

theorem getQuote_demo_toAmount:
  assumes "\<not> string_truthy (apiKey this)"
  shows "(src params = MATIC \<and> dst params = USDC \<longrightarrow>
            (\<exists>q. getQuote this axios_get random params = Inr q
               \<and> toAmount q =
                   Some (toFixed 6 (number_times (parseFloat (amount params)) (fl 7 10)))))
       \<and> ((src params, dst params) \<notin> set hardcoded_pairs \<longrightarrow>
            (\<exists>q. getQuote this axios_get random params = Inr q
               \<and> toAmount q = Some (amount params)))
       \<and> (\<exists>q q'. getQuote this axios_get random params = Inr q
               \<and> getQuote this axios_get' random' params = Inr q'
               \<and> toAmount q = toAmount q')"
proof -
  have demo: "\<exists>q. getQuote this ax r params = Inr q
      \<and> toAmount q = Some (estimatedToAmount params)" for ax r
    using assms by (cases "apiKey this") (simp_all add: getQuote_def Let_def)
  obtain q where q: "getQuote this axios_get random params = Inr q"
      "toAmount q = Some (estimatedToAmount params)"
    using demo by blast
  obtain q' where q': "getQuote this axios_get' random' params = Inr q'"
      "toAmount q' = Some (estimatedToAmount params)"
    using demo by blast
  show ?thesis
    by (simp add: q q' estimatedToAmount_def hardcoded_pairs_def Let_def)
qed

text \<open>One MATIC gives \<^verbatim>\<open>0.700000\<close>; five DAI for WBTC, a pair outside the table, give
  \<^verbatim>\<open>5\<close>.\<close>

theorem getQuote_demo_toAmount_witness:
  "\<not> string_truthy (apiKey demo_aggregator)
   \<and> src matic_usdc_one = MATIC \<and> dst matic_usdc_one = USDC
   \<and> (\<exists>q. getQuote demo_aggregator no_axios (Fin 1 (- 2)) matic_usdc_one = Inr q
         \<and> toAmount q = Some (Str ''0.700000''))
   \<and> (src dai_wbtc_five, dst dai_wbtc_five) \<notin> set hardcoded_pairs
   \<and> (\<exists>q. getQuote demo_aggregator no_axios (Fin 1 (- 2)) dai_wbtc_five = Inr q
         \<and> toAmount q = Some (Str ''5''))"
proof -
  have nokey: "\<not> string_truthy (apiKey demo_aggregator)"
    by (simp add: demo_aggregator_def DexAggregator_new_def string_or_def)
  have pair: "(src dai_wbtc_five, dst dai_wbtc_five) \<notin> set hardcoded_pairs"
    by (simp add: dai_wbtc_five_def hardcoded_pairs_def addresses_distinct)
  have one: "\<exists>q. getQuote demo_aggregator no_axios (Fin 1 (- 2)) matic_usdc_one = Inr q
      \<and> toAmount q =
          Some (toFixed 6 (number_times (parseFloat (amount matic_usdc_one)) (fl 7 10)))"
    using getQuote_demo_toAmount [OF nokey, of matic_usdc_one no_axios "Fin 1 (- 2)"]
    by (simp add: matic_usdc_one_def)
  have five: "\<exists>q. getQuote demo_aggregator no_axios (Fin 1 (- 2)) dai_wbtc_five = Inr q
      \<and> toAmount q = Some (amount dai_wbtc_five)"
    using getQuote_demo_toAmount [OF nokey, of dai_wbtc_five no_axios "Fin 1 (- 2)"] pair
    by simp
  show ?thesis
    using nokey pair one five
    by (simp add: matic_usdc_one_def dai_wbtc_five_def literal_eval)
qed

section \<open>validateOpportunity\<close>

lemma fresh_age: "number_minus (fl 1700000000001 1) (Fin 1700000000000 0) = Fin 1 0"
  by (simp add: number_eval)

lemma stale_age: "number_minus (fl 1700000000001 1) (Fin 1699999960000 0) = Fin 40001 0"
  by (simp add: number_eval)

text \<open>
  C8: \<open>validateOpportunity\<close> answers false whenever the age of the opportunity (now minus
  its timestamp) exceeds 30000 ms, whatever its profit; false whenever the age is within
  the window and the net profit percent is below the configured minimum (0.15 when
  unset); true when both checks pass and the configuration store answered; and false when
  the configuration store throws.  It always answers: the function has no throwing path.
\<close>

theorem validateOpportunity_checks:
  "(let h' = snd (storage_getBotConfig c userId h);
        ageMs = number_minus (fl (Date_now c h') 1) (timestamp opportunity);
        minimum = parseFloat (jsstring_or
                     (case getBotConfig c h userId of
                        Inr (Some cfg) \<Rightarrow> minNetProfitPercent cfg
                      | _ \<Rightarrow> None)
                     (Str ''0.15''));
        valid = fst (validateOpportunity c userId opportunity h)
    in (number_gt ageMs (fl 30000 1) \<longrightarrow> \<not> valid)
     \<and> (\<not> number_gt ageMs (fl 30000 1) \<and> number_lt (netProfitPercent opportunity) minimum
          \<longrightarrow> \<not> valid)
     \<and> (\<not> number_gt ageMs (fl 30000 1) \<and> \<not> number_lt (netProfitPercent opportunity) minimum
          \<and> (\<exists>found. getBotConfig c h userId = Inr found) \<longrightarrow> valid)
     \<and> ((\<exists>e. getBotConfig c h userId = Inl e) \<longrightarrow> \<not> valid))"
  by (auto simp: validateOpportunity_def storage_getBotConfig_def call_value_def Let_def
      split: sum.splits option.splits)

text \<open>An opportunity 40001 ms old with 50 percent profit is rejected; one 1 ms old with
  0.0625 percent is rejected; one 1 ms old with 0.5 percent is accepted; and nothing is
  accepted while the configuration store is down.\<close>

theorem validateOpportunity_checks_witness:
  "number_gt (number_minus (fl 1700000000001 1) (timestamp opportunity_stale)) (fl 30000 1)
   \<and> \<not> fst (validateOpportunity collaborators0 ''u1'' opportunity_stale [])
   \<and> \<not> number_gt (number_minus (fl 1700000000001 1) (timestamp opportunity_thin)) (fl 30000 1)
   \<and> number_lt (netProfitPercent opportunity_thin) (parseFloat (Str ''0.15''))
   \<and> \<not> fst (validateOpportunity collaborators0 ''u1'' opportunity_thin [])
   \<and> \<not> number_lt (netProfitPercent opportunity0) (parseFloat (Str ''0.15''))
   \<and> fst (validateOpportunity collaborators0 ''u1'' opportunity0 [])
   \<and> getBotConfig collaborators_config_down [] ''u1'' = Inl (Thrown ''database unavailable'')
   \<and> \<not> fst (validateOpportunity collaborators_config_down ''u1'' opportunity0 [])"
  using validateOpportunity_checks [where c = collaborators0 and userId = "''u1''" and h = "[]"
          and opportunity = opportunity_stale]
        validateOpportunity_checks [where c = collaborators0 and userId = "''u1''" and h = "[]"
          and opportunity = opportunity_thin]
        validateOpportunity_checks [where c = collaborators0 and userId = "''u1''" and h = "[]"
          and opportunity = opportunity0]
        validateOpportunity_checks [where c = collaborators_config_down and userId = "''u1''"
          and h = "[]" and opportunity = opportunity0]
  by (simp add: fixture_defs storage_getBotConfig_def call_value_def jsstring_or_def Let_def
      number_gt_def fresh_age stale_age literal_eval)

section \<open>The gas-price ceiling\<close>

text \<open>
  C10: a configured maximum gas price of 0 is treated as an unset one.  The gas-price
  check makes the same calls and passes or fails alike in both cases, and with a maximum
  of 0 it passes exactly when the gas price does not exceed the default of 60 Gwei (the
  gas price being read and the audit log accepting the entries).
\<close>

theorem zero_gas_ceiling_is_default:
  "(let zero = config\<lparr>maxGasPriceGwei := Some (Fin 0 e)\<rparr>;
        unset = config\<lparr>maxGasPriceGwei := None\<rparr>
    in snd (check_gas_price c userId zero h) = snd (check_gas_price c userId unset h)
     \<and> (fst (check_gas_price c userId zero h) = Inr ()) =
         (fst (check_gas_price c userId unset h) = Inr ())
     \<and> (\<forall>g. getGasPrice c h = Inr g \<and> (\<forall>h1 entry. createActivityLog c h1 userId entry = None)
            \<longrightarrow> (fst (check_gas_price c userId zero h) = Inr ()) =
                 (\<not> number_gt (parseFloat g) (fl 60 1))))"
  by (auto simp: check_gas_price_def io_defs number_or_def Let_def split: sum.splits option.splits)

text \<open>With a maximum of 0 and a gas price of 30 Gwei the check passes.\<close>

theorem zero_gas_ceiling_is_default_witness:
  "getGasPrice collaborators0 [] = Inr (Str ''30'')
   \<and> (\<forall>h1 entry. createActivityLog collaborators0 h1 ''u1'' entry = None)
   \<and> \<not> number_gt (parseFloat (Str ''30'')) (fl 60 1)
   \<and> fst (check_gas_price collaborators0 ''u1'' (config0\<lparr>maxGasPriceGwei := Some (Fin 0 0)\<rparr>) [])
       = Inr ()"
  using zero_gas_ceiling_is_default
    [where c = collaborators0 and userId = "''u1''" and config = config0 and e = 0 and h = "[]"]
  by (simp add: fixture_defs Let_def number_gt_def literal_eval)

section \<open>executeArbitrageTrade\<close>

subsection \<open>Histories and the blocks of the pipeline\<close>

lemma written_append [simp]: "written (h1 @ h2) = written h1 @ written h2"
  by (induction h1 rule: written.induct) simp_all

lemma notified_append [simp]: "notified (h1 @ h2) = notified h1 @ notified h2"
  by (induction h1 rule: notified.induct) simp_all

lemma logged_append [simp]: "logged (h1 @ h2) = logged h1 @ logged h2"
  by (induction h1 rule: logged.induct) simp_all

lemma network_queries_append [simp]:
  "network_queries (h1 @ h2) = network_queries h1 @ network_queries h2"
  by (simp add: network_queries_def)

lemma network_queries_simps [simp]:
  "network_queries [] = []"
  "network_queries (Returned (CreateActivityLog u entry) # h) = network_queries h"
  "network_queries (Threw (CreateActivityLog u entry) e # h) = network_queries h"
  "network_queries (Returned (GetBotConfig u) # h) = network_queries h"
  "network_queries (Threw (GetBotConfig u) e # h) = network_queries h"
  "network_queries (Returned (CreateArbitrageTransaction u tx) # h) = network_queries h"
  "network_queries (Threw (CreateArbitrageTransaction u tx) e # h) = network_queries h"
  "network_queries (Returned (SendTelegramMessage u k) # h) = network_queries h"
  "network_queries (Threw (SendTelegramMessage u k) e # h) = network_queries h"
  "network_queries (Returned GetGasPrice # h) = Returned GetGasPrice # network_queries h"
  "network_queries (Returned (GetNativeBalance a n) # h) =
     Returned (GetNativeBalance a n) # network_queries h"
  by (simp_all add: network_queries_def)

lemmas run_eval =
  pipeline_defs io_defs fixture_defs Let_def literal_eval number_gt_def number_ge_def

text \<open>The guarded body either returns a successful result of the simulation, having
  stored one record with status \<open>success\<close>, or throws, having stored nothing or (in
  simulation) that one record.\<close>

lemma try_block_outcome:
  assumes "try_block c userId opportunity isSimulation startTime h = (r, h')"
  shows "case r of
           Inr res \<Rightarrow> success res \<and> error res = None \<and> isSimulation \<and>
                      (\<exists>w. written h' = written h @ [w] \<and> status w = Status_success)
         | Inl e \<Rightarrow> written h' = written h \<or>
                    (isSimulation \<and>
                     (\<exists>w. written h' = written h @ [w] \<and> status w = Status_success))"
  using assms
  unfolding try_block_def check_matic_balance_def check_gas_price_def simulate_trade_def
    real_trade_def dexAggregator_buildSwapTransaction_def buildSwapTransaction_def random_hash_def
  by (auto simp: io_defs Let_def split: option.splits if_splits sum.splits prod.splits)

lemma error_message_cases:
  "e = NullishValue \<or> (\<exists>m. error_message e = Inr m)"
  by (cases e) simp_all

lemma catch_block_frame:
  assumes "catch_block c userId opportunity startTime e h1 = (res, h')"
  shows "network_queries h' = network_queries h1
         \<and> (\<forall>r. res = Inr r \<longrightarrow> \<not> success r \<and> error_message e = Inr (error r))"
  using assms
  by (auto simp: catch_block_def io_defs split: option.splits sum.splits)

text \<open>The real-trading branch never returns: it stops at the call of the missing
  \<open>buildSwapTransaction\<close> at the latest, before any record or notification.\<close>

lemma real_trade_fails:
  "real_trade c userId opportunity config startTime h = (r, h') \<Longrightarrow>
     (\<exists>e. r = Inl e) \<and> written h' = written h \<and> notified h' = notified h"
  unfolding real_trade_def dexAggregator_buildSwapTransaction_def buildSwapTransaction_def
  by (auto simp: io_defs Let_def split: option.splits if_splits sum.splits prod.splits)

lemma real_mode_never_succeeds:
  assumes "executeArbitrageTrade c userId opportunity False h = (Inr r, h')"
  shows "\<not> success r"
proof (cases "try_block c userId opportunity False (Date_now c h) h")
  case (Pair r0 h1)
  with try_block_outcome [OF Pair] obtain e where "r0 = Inl e"
    by (cases r0) simp_all
  with Pair assms show ?thesis
    by (auto simp: executeArbitrageTrade_def io_catch_def dest: catch_block_frame)
qed

text \<open>The balance check: a balance below the minimum and a failure of the query end alike,
  in a warning and a normal return, unless the query rejected with \<^verbatim>\<open>undefined\<close> or
  \<^verbatim>\<open>null\<close>: then the handler throws while it builds the warning.\<close>

lemma low_balance_is_swallowed:
  assumes "key \<noteq> []"
      and "Wallet_address c key = Inr walletAddress"
      and "\<And>h1 a n. getNativeBalance c h1 a n = Inr balance"
      and "number_lt (parseFloat balance) (fl 1 10)"
      and "\<And>h1 entry. createActivityLog c h1 userId entry = None"
  shows "fst (check_matic_balance c userId config False (Some key) h) = Inr ()"
  using assms by (simp add: check_matic_balance_def io_defs Let_def)

lemma balance_query_failure_is_swallowed:
  assumes "key \<noteq> []"
      and "Wallet_address c key = Inr walletAddress"
      and "\<And>h1 a n. getNativeBalance c h1 a n = Inl e"
      and "e \<noteq> NullishValue"
      and "\<And>h1 entry. createActivityLog c h1 userId entry = None"
  shows "fst (check_matic_balance c userId config False (Some key) h) = Inr ()"
  using assms error_message_cases [of e]
  by (auto simp: check_matic_balance_def io_defs Let_def)

lemma balance_query_undefined_is_thrown:
  assumes "key \<noteq> []"
      and "Wallet_address c key = Inr walletAddress"
      and "\<And>h1 a n. getNativeBalance c h1 a n = Inl NullishValue"
  shows "fst (check_matic_balance c userId config False (Some key) h) =
           Inl (CannotReadProperty ''message'')"
  using assms by (simp add: check_matic_balance_def io_defs Let_def)

text \<open>The gas-price check, in both modes: a price above the ceiling throws the
  gas-too-high error once the two log entries are accepted.\<close>

lemma gas_price_above_ceiling_fails:
  assumes "getGasPrice c h = Inr g"
      and "number_gt (parseFloat g) (number_or (maxGasPriceGwei config) (fl 60 1))"
      and "\<And>h1 entry. createActivityLog c h1 userId entry = None"
  shows "fst (check_gas_price c userId config h) =
           Inl (GasPriceTooHigh (parseFloat g) (maxGasPriceGwei config))"
  using assms by (simp add: check_gas_price_def io_defs Let_def)

subsection \<open>Failures and the result\<close>

text \<open>While the audit log is down the call rejects: the first log write throws, and so
  does the log write of the failure path.\<close>

theorem executeArbitrageTrade_throws_when_log_down:
  "fst (executeArbitrageTrade collaborators_log_down ''u1'' opportunity0 True []) =
     Inl (Thrown ''database unavailable'')"
  by (simp add: run_eval)

text \<open>
  C1 (as amended): \<open>executeArbitrageTrade\<close> returns a result in these cases only.  When the
  guarded body returns, the call returns its result, with \<open>success = true\<close>.  When the
  guarded body throws a value other than \<^verbatim>\<open>undefined\<close> and \<^verbatim>\<open>null\<close>, and the audit log and
  the record store accept the two writes of the failure path, the call returns
  \<open>success = false\<close> with a message built from the caught value and with \<open>error\<close> set to the
  \<^verbatim>\<open>message\<close> of the caught value (\<^verbatim>\<open>undefined\<close> when the value has none).  Otherwise the
  call throws outward: the \<^verbatim>\<open>TypeError\<close> of reading \<^verbatim>\<open>message\<close> when the caught value is
  \<^verbatim>\<open>undefined\<close> or \<^verbatim>\<open>null\<close>, and else the error thrown by the log write or by the record
  write of the failure path.
\<close>

theorem executeArbitrageTrade_outcome:
  assumes body: "try_block c userId opportunity isSimulation (Date_now c h) h = (r0, h1)"
  shows "(\<forall>res. r0 = Inr res \<longrightarrow>
            executeArbitrageTrade c userId opportunity isSimulation h = (Inr res, h1)
            \<and> success res)
       \<and> (r0 = Inl NullishValue \<longrightarrow>
            executeArbitrageTrade c userId opportunity isSimulation h =
              (Inl (CannotReadProperty ''message''), h1))
       \<and> (\<forall>e x. r0 = Inl e \<and> e \<noteq> NullishValue
                \<and> createActivityLog c h1 userId (failure_log e) = Some x \<longrightarrow>
            fst (executeArbitrageTrade c userId opportunity isSimulation h) = Inl x)
       \<and> (\<forall>e x. r0 = Inl e \<and> e \<noteq> NullishValue
                \<and> createActivityLog c h1 userId (failure_log e) = None
                \<and> createArbitrageTransaction c
                     (h1 @ [Returned (CreateActivityLog userId (failure_log e))]) userId
                     (failed_transaction opportunity) = Some x \<longrightarrow>
            fst (executeArbitrageTrade c userId opportunity isSimulation h) = Inl x)
       \<and> (\<forall>e. r0 = Inl e \<and> e \<noteq> NullishValue
                \<and> createActivityLog c h1 userId (failure_log e) = None
                \<and> createArbitrageTransaction c
                     (h1 @ [Returned (CreateActivityLog userId (failure_log e))]) userId
                     (failed_transaction opportunity) = None \<longrightarrow>
            (\<exists>r h'. executeArbitrageTrade c userId opportunity isSimulation h = (Inr r, h')
               \<and> \<not> success r \<and> message r = Trade_execution_failed e
               \<and> error_message e = Inr (error r)))"
proof (cases r0)
  case (Inr res)
  with body try_block_outcome [OF body] show ?thesis
    by (simp add: executeArbitrageTrade_def io_catch_def)
next
  case (Inl e)
  with body have run: "executeArbitrageTrade c userId opportunity isSimulation h =
      catch_block c userId opportunity (Date_now c h) e h1"
    by (simp add: executeArbitrageTrade_def io_catch_def)
  show ?thesis
  proof (cases "e = NullishValue")
    case True
    with Inl run show ?thesis
      by (simp add: catch_block_def io_defs)
  next
    case False
    with error_message_cases [of e] obtain m where "error_message e = Inr m"
      by blast
    with Inl False run show ?thesis
      by (auto simp: catch_block_def io_defs)
  qed
qed

text \<open>Six calls: a simulation that succeeds; a gas oracle that rejects with
  \<^verbatim>\<open>undefined\<close>; an audit log that is down; a record store that is down, in real mode; a
  real-mode call with answering collaborators, which fails at the missing
  \<open>buildSwapTransaction\<close> and returns that failure; and a gas oracle that rejects with a
  string, which is returned as a failure without an error message.\<close>

theorem executeArbitrageTrade_outcome_witness:
  "(\<exists>r h'. executeArbitrageTrade collaborators0 ''u1'' opportunity0 True [] = (Inr r, h')
       \<and> success r)
   \<and> fst (try_block collaborators_gas_undefined ''u1'' opportunity0 True
        (Date_now collaborators_gas_undefined []) []) = Inl NullishValue
   \<and> fst (executeArbitrageTrade collaborators_gas_undefined ''u1'' opportunity0 True []) =
       Inl (CannotReadProperty ''message'')
   \<and> fst (try_block collaborators_log_down ''u1'' opportunity0 False
        (Date_now collaborators_log_down []) []) = Inl (Thrown ''database unavailable'')
   \<and> fst (executeArbitrageTrade collaborators_log_down ''u1'' opportunity0 False []) =
       Inl (Thrown ''database unavailable'')
   \<and> fst (try_block collaborators_store_down ''u1'' opportunity0 False
        (Date_now collaborators_store_down []) []) =
       Inl (NotAFunction ''dexAggregator.buildSwapTransaction'')
   \<and> fst (executeArbitrageTrade collaborators_store_down ''u1'' opportunity0 False []) =
       Inl (Thrown ''database unavailable'')
   \<and> fst (try_block collaborators0 ''u1'' opportunity0 False (Date_now collaborators0 []) []) =
       Inl (NotAFunction ''dexAggregator.buildSwapTransaction'')
   \<and> (\<exists>r h'. executeArbitrageTrade collaborators0 ''u1'' opportunity0 False [] = (Inr r, h')
         \<and> \<not> success r \<and> error r = Some (NotAFunction ''dexAggregator.buildSwapTransaction''))
   \<and> fst (try_block collaborators_gas_string ''u1'' opportunity0 True
        (Date_now collaborators_gas_string []) []) = Inl (ValueWithoutMessage ''timeout'')
   \<and> (\<exists>r h'. executeArbitrageTrade collaborators_gas_string ''u1'' opportunity0 True [] =
           (Inr r, h')
         \<and> \<not> success r \<and> error r = None)"
proof -
  have body1: "\<exists>res. try_block collaborators0 ''u1'' opportunity0 True
      (Date_now collaborators0 []) [] =
      (Inr res, snd (try_block collaborators0 ''u1'' opportunity0 True
         (Date_now collaborators0 []) []))"
  proof -
    have "\<exists>res. fst (try_block collaborators0 ''u1'' opportunity0 True
        (Date_now collaborators0 []) []) = Inr res"
      by (simp add: run_eval)
    then show ?thesis
      by (metis prod.collapse)
  qed
  then obtain res where res: "try_block collaborators0 ''u1'' opportunity0 True
      (Date_now collaborators0 []) [] =
      (Inr res, snd (try_block collaborators0 ''u1'' opportunity0 True
         (Date_now collaborators0 []) []))"
    by blast
  have one: "\<exists>r h'. executeArbitrageTrade collaborators0 ''u1'' opportunity0 True [] = (Inr r, h')
      \<and> success r"
    using executeArbitrageTrade_outcome [OF res] by blast

  have failed2: "fst (try_block collaborators_gas_undefined ''u1'' opportunity0 True
      (Date_now collaborators_gas_undefined []) []) = Inl NullishValue"
    by (simp add: run_eval)
  then have body2: "try_block collaborators_gas_undefined ''u1'' opportunity0 True
      (Date_now collaborators_gas_undefined []) [] =
      (Inl NullishValue, snd (try_block collaborators_gas_undefined ''u1'' opportunity0 True
         (Date_now collaborators_gas_undefined []) []))"
    by (metis prod.collapse)
  have two: "fst (executeArbitrageTrade collaborators_gas_undefined ''u1'' opportunity0 True [])
      = Inl (CannotReadProperty ''message'')"
    using executeArbitrageTrade_outcome [OF body2] by simp

  have failed3: "fst (try_block collaborators_log_down ''u1'' opportunity0 False
      (Date_now collaborators_log_down []) []) = Inl (Thrown ''database unavailable'')"
    by (simp add: run_eval)
  then have body3: "try_block collaborators_log_down ''u1'' opportunity0 False
      (Date_now collaborators_log_down []) [] =
      (Inl (Thrown ''database unavailable''),
       snd (try_block collaborators_log_down ''u1'' opportunity0 False
         (Date_now collaborators_log_down []) []))"
    by (metis prod.collapse)
  have log3: "createActivityLog collaborators_log_down h1 ''u1'' entry =
      Some (Thrown ''database unavailable'')" for h1 entry
    by (simp add: fixture_defs)
  have three: "fst (executeArbitrageTrade collaborators_log_down ''u1'' opportunity0 False [])
      = Inl (Thrown ''database unavailable'')"
    using executeArbitrageTrade_outcome [OF body3] by (simp add: log3)

  have failed4: "fst (try_block collaborators_store_down ''u1'' opportunity0 False
      (Date_now collaborators_store_down []) []) =
      Inl (NotAFunction ''dexAggregator.buildSwapTransaction'')"
    by (simp add: run_eval)
  then have body4: "try_block collaborators_store_down ''u1'' opportunity0 False
      (Date_now collaborators_store_down []) [] =
      (Inl (NotAFunction ''dexAggregator.buildSwapTransaction''),
       snd (try_block collaborators_store_down ''u1'' opportunity0 False
         (Date_now collaborators_store_down []) []))"
    by (metis prod.collapse)
  have log4: "createActivityLog collaborators_store_down h1 ''u1'' entry = None" for h1 entry
    by (simp add: fixture_defs)
  have tx4: "createArbitrageTransaction collaborators_store_down h1 ''u1'' t =
      Some (Thrown ''database unavailable'')" for h1 t
    by (simp add: fixture_defs)
  have four: "fst (executeArbitrageTrade collaborators_store_down ''u1'' opportunity0 False [])
      = Inl (Thrown ''database unavailable'')"
    using executeArbitrageTrade_outcome [OF body4] by (simp add: log4 tx4)

  have failed5: "fst (try_block collaborators0 ''u1'' opportunity0 False
      (Date_now collaborators0 []) []) = Inl (NotAFunction ''dexAggregator.buildSwapTransaction'')"
    by (simp add: run_eval)
  then have body5: "try_block collaborators0 ''u1'' opportunity0 False
      (Date_now collaborators0 []) [] =
      (Inl (NotAFunction ''dexAggregator.buildSwapTransaction''),
       snd (try_block collaborators0 ''u1'' opportunity0 False (Date_now collaborators0 []) []))"
    by (metis prod.collapse)
  have log5: "createActivityLog collaborators0 h1 ''u1'' entry = None" for h1 entry
    by (simp add: fixture_defs)
  have tx5: "createArbitrageTransaction collaborators0 h1 ''u1'' t = None" for h1 t
    by (simp add: fixture_defs)
  have five: "\<exists>r h'. executeArbitrageTrade collaborators0 ''u1'' opportunity0 False [] =
      (Inr r, h')
      \<and> \<not> success r \<and> error r = Some (NotAFunction ''dexAggregator.buildSwapTransaction'')"
    using executeArbitrageTrade_outcome [OF body5] by (auto simp: log5 tx5)

  have failed6: "fst (try_block collaborators_gas_string ''u1'' opportunity0 True
      (Date_now collaborators_gas_string []) []) = Inl (ValueWithoutMessage ''timeout'')"
    by (simp add: run_eval)
  then have body6: "try_block collaborators_gas_string ''u1'' opportunity0 True
      (Date_now collaborators_gas_string []) [] =
      (Inl (ValueWithoutMessage ''timeout''),
       snd (try_block collaborators_gas_string ''u1'' opportunity0 True
         (Date_now collaborators_gas_string []) []))"
    by (metis prod.collapse)
  have log6: "createActivityLog collaborators_gas_string h1 ''u1'' entry = None" for h1 entry
    by (simp add: fixture_defs)
  have tx6: "createArbitrageTransaction collaborators_gas_string h1 ''u1'' t = None" for h1 t
    by (simp add: fixture_defs)
  have six: "\<exists>r h'. executeArbitrageTrade collaborators_gas_string ''u1'' opportunity0 True [] =
      (Inr r, h')
      \<and> \<not> success r \<and> error r = None"
    using executeArbitrageTrade_outcome [OF body6] by (auto simp: log6 tx6)

  from one failed2 two failed3 three failed4 four failed5 five failed6 six show ?thesis
    by (intro conjI)
qed

subsection \<open>The real-trading branch\<close>

text \<open>
  C2 (the code at a real-mode call whose checks all pass): configuration found, real
  trading enabled, key configured, balance 5.0, gas price 30 against a maximum of 60.  The
  call of \<open>buildSwapTransaction\<close> throws, so no swap leg is built, the only record stored
  has status \<open>failed\<close>, no notification is sent, and the result is \<open>success = false\<close>.
\<close>

theorem real_trade_ends_in_failure:
  "fst (executeArbitrageTrade collaborators0 ''u1'' opportunity0 False []) =
     Inr \<lparr>success = False, txHash = None, profitUsd = None, gasCostUsd = None,
          message = Trade_execution_failed (NotAFunction ''dexAggregator.buildSwapTransaction''),
          error = Some (NotAFunction ''dexAggregator.buildSwapTransaction''),
          executionTime = Some 10\<rparr>
   \<and> map status (written (snd (executeArbitrageTrade collaborators0 ''u1'' opportunity0 False [])))
       = [Status_failed]
   \<and> notified (snd (executeArbitrageTrade collaborators0 ''u1'' opportunity0 False [])) = []
   \<and> network_queries (snd (executeArbitrageTrade collaborators0 ''u1'' opportunity0 False [])) =
       [Returned (GetNativeBalance ''0xWalletAddress'' 137), Returned GetGasPrice]"
  by (simp add: run_eval)

subsection \<open>The balance check\<close>

text \<open>
  C3 (the code at a balance of 0.05, below the minimum of 0.1): the insufficient-balance
  error is caught by the handler of the balance check itself and logged as a warning;
  the pipeline goes on to query the gas price and to the real-trading branch, and the
  error returned in the end is not the insufficient-balance one.
\<close>

theorem low_balance_does_not_abort:
  "number_lt (parseFloat (Str ''0.05'')) (fl 1 10)
   \<and> logged (snd (executeArbitrageTrade collaborators_low_balance ''u1'' opportunity0 False [])) =
       [log_entry Level_info ''1_validation'',
        log_entry Level_info ''2_key_validation'',
        log_entry Level_info ''3_balance_check'',
        \<lparr>level = Level_warning, step = Some ''3_balance_check_failed'',
         log_error = Some (InsufficientMaticBalance (Str ''0.0500''))\<rparr>,
        log_entry Level_info ''4_gas_check'',
        log_entry Level_warning ''5_real_execution'',
        failure_log (NotAFunction ''dexAggregator.buildSwapTransaction'')]
   \<and> network_queries (snd (executeArbitrageTrade collaborators_low_balance ''u1'' opportunity0
         False [])) =
       [Returned (GetNativeBalance ''0xWalletAddress'' 137), Returned GetGasPrice]
   \<and> fst (executeArbitrageTrade collaborators_low_balance ''u1'' opportunity0 False []) =
       Inr \<lparr>success = False, txHash = None, profitUsd = None, gasCostUsd = None,
            message = Trade_execution_failed (NotAFunction ''dexAggregator.buildSwapTransaction''),
            error = Some (NotAFunction ''dexAggregator.buildSwapTransaction''),
            executionTime = Some 11\<rparr>"
  by (simp add: run_eval)

text \<open>
  C5 (the code at a balance of 0.05 and a gas price of 80 against a maximum of 60): both
  conditions are violated, and the error returned is the gas-too-high one, not the
  insufficient-balance one.
\<close>

theorem gas_error_wins_over_low_balance:
  "number_lt (parseFloat (Str ''0.05'')) (fl 1 10)
   \<and> number_gt (parseFloat (Str ''80'')) (number_or (maxGasPriceGwei config0) (fl 60 1))
   \<and> fst (executeArbitrageTrade collaborators_low_balance_high_gas ''u1'' opportunity0 False []) =
       Inr \<lparr>success = False, txHash = None, profitUsd = None, gasCostUsd = None,
            message = Trade_execution_failed (GasPriceTooHigh (Fin 5 4) (Some (Fin 60 0))),
            error = Some (GasPriceTooHigh (Fin 5 4) (Some (Fin 60 0))),
            executionTime = Some 11\<rparr>"
  by (simp add: run_eval)

subsection \<open>Transaction records\<close>

text \<open>A simulation whose notification fails stores two records, \<open>success\<close> and then
  \<open>failed\<close>, and returns \<open>success = false\<close>.\<close>

theorem two_records_when_notification_fails:
  "fst (executeArbitrageTrade collaborators_telegram_down ''u1'' opportunity0 True []) =
     Inr \<lparr>success = False, txHash = None, profitUsd = None, gasCostUsd = None,
          message = Trade_execution_failed (Thrown ''telegram unreachable''),
          error = Some (Thrown ''telegram unreachable''),
          executionTime = Some 11\<rparr>
   \<and> map status (written (snd (executeArbitrageTrade collaborators_telegram_down ''u1''
         opportunity0 True []))) = [Status_success, Status_failed]"
  by (simp add: run_eval)

text \<open>
  C4 (as amended): every call that returns a result has stored one or two transaction
  records during the call; when \<open>success = true\<close> it stored exactly one, with status
  \<open>success\<close> or \<open>pending\<close>; when \<open>success = false\<close> the last record stored has status
  \<open>failed\<close>; and no record of a simulation has status \<open>pending\<close>.
\<close>

theorem one_or_two_transaction_records:
  assumes "executeArbitrageTrade c userId opportunity isSimulation h = (Inr r, h')"
  shows "\<exists>ws. written h' = written h @ ws
           \<and> (success r \<longrightarrow>
                (\<exists>w. ws = [w] \<and> (status w = Status_success \<or> status w = Status_pending)))
           \<and> (\<not> success r \<longrightarrow>
                (length ws = 1 \<or> length ws = 2) \<and> status (last ws) = Status_failed)
           \<and> (isSimulation \<longrightarrow> (\<forall>w \<in> set ws. status w \<noteq> Status_pending))"
proof (cases "try_block c userId opportunity isSimulation (Date_now c h) h")
  case (Pair r0 h1)
  note outcome = try_block_outcome [OF Pair]
  show ?thesis
  proof (cases r0)
    case (Inr res)
    with Pair assms outcome show ?thesis
      by (auto simp: executeArbitrageTrade_def io_catch_def)
  next
    case (Inl e)
    with Pair assms have "catch_block c userId opportunity (Date_now c h) e h1 = (Inr r, h')"
      by (simp add: executeArbitrageTrade_def io_catch_def)
    then have r: "\<not> success r" and h': "written h' = written h1 @ [failed_transaction opportunity]"
      by (auto simp: catch_block_def io_defs split: option.splits sum.splits)
    from outcome Inl have "written h1 = written h \<or>
        (isSimulation \<and> (\<exists>w. written h1 = written h @ [w] \<and> status w = Status_success))"
      by simp
    with r h' show ?thesis
      by (auto simp: failed_transaction_def)
  qed
qed

text \<open>A simulation with answering collaborators stores one record; with the notifier
  down it stores two.\<close>

theorem one_or_two_transaction_records_witness:
  "(\<exists>r h'. executeArbitrageTrade collaborators0 ''u1'' opportunity0 True [] = (Inr r, h')
        \<and> success r \<and> map status (written h') = [Status_success])
   \<and> (\<exists>r h'. executeArbitrageTrade collaborators_telegram_down ''u1'' opportunity0 True []
          = (Inr r, h')
        \<and> \<not> success r \<and> map status (written h') = [Status_success, Status_failed])"
proof -
  let ?run1 = "executeArbitrageTrade collaborators0 ''u1'' opportunity0 True []"
  let ?run2 = "executeArbitrageTrade collaborators_telegram_down ''u1'' opportunity0 True []"
  have "\<exists>r. fst ?run1 = Inr r \<and> success r"
    by (simp add: run_eval)
  then obtain r1 where r1: "?run1 = (Inr r1, snd ?run1)" "success r1"
    by (metis prod.collapse)
  have w1: "map status (written (snd ?run1)) = [Status_success]"
    by (simp add: run_eval)
  have "\<exists>r. fst ?run2 = Inr r \<and> \<not> success r"
    by (simp add: run_eval)
  then obtain r2 where r2: "?run2 = (Inr r2, snd ?run2)" "\<not> success r2"
    by (metis prod.collapse)
  have w2: "map status (written (snd ?run2)) = [Status_success, Status_failed]"
    by (simp add: run_eval)
  note one_or_two_transaction_records [OF r1(1)] one_or_two_transaction_records [OF r2(1)]
  with r1 r2 w1 w2 show ?thesis
    by metis
qed

subsection \<open>Credentials\<close>

lemma try_block_no_credential:
  assumes env: "\<not> string_truthy (PRIVATE_KEY c)"
      and cfg: "\<And>h1 cfg. getBotConfig c h1 userId = Inr (Some cfg) \<Longrightarrow> \<not> string_truthy (privateKey cfg)"
      and run: "try_block c userId opportunity False startTime h = (r, h1)"
  shows "(\<exists>e. r = Inl e) \<and> network_queries h1 = network_queries h"
proof (cases "createActivityLog c h userId (log_entry Level_info ''1_validation'')")
  case (Some e)
  with run show ?thesis
    by (auto simp: try_block_def io_defs)
next
  case None
  note first = None
  let ?h1 = "h @ [Returned (CreateActivityLog userId (log_entry Level_info ''1_validation''))]"
  show ?thesis
  proof (cases "getBotConfig c ?h1 userId")
    case (Inl e)
    with first run show ?thesis
      by (auto simp: try_block_def io_defs)
  next
    case (Inr found)
    show ?thesis
    proof (cases found)
      case None
      with first Inr run show ?thesis
        by (auto simp: try_block_def io_defs)
    next
      case (Some cf)
      with Inr have "\<not> string_truthy (privateKey cf)"
        using cfg by blast
      with env have key: "\<not> string_truthy (string_or (privateKey cf) (PRIVATE_KEY c))"
        by (simp add: string_or_def)
      from first Inr Some run key show ?thesis
        by (auto simp: try_block_def io_defs Let_def split: if_splits option.splits)
    qed
  qed
qed

lemma try_block_no_credential_error:
  assumes env: "\<not> string_truthy (PRIVATE_KEY c)"
      and cfg: "\<And>h1 cfg. getBotConfig c h1 userId = Inr (Some cfg) \<Longrightarrow> \<not> string_truthy (privateKey cfg)"
      and log: "\<And>h1 entry. createActivityLog c h1 userId entry = None"
      and found: "\<And>h1. \<exists>cf. getBotConfig c h1 userId = Inr (Some cf) \<and> enableRealTrading cf"
      and run: "try_block c userId opportunity False startTime h = (r, h1)"
  shows "r = Inl PrivateKeyNotConfigured"
proof -
  let ?h1 = "h @ [Returned (CreateActivityLog userId (log_entry Level_info ''1_validation''))]"
  from found obtain cf where cf: "getBotConfig c ?h1 userId = Inr (Some cf)" "enableRealTrading cf"
    by blast
  then have "\<not> string_truthy (privateKey cf)"
    using cfg by blast
  with env have key: "\<not> string_truthy (string_or (privateKey cf) (PRIVATE_KEY c))"
    by (simp add: string_or_def)
  from run cf key show ?thesis
    by (simp add: try_block_def io_defs Let_def log)
qed

text \<open>With real trading disabled and no credential anywhere, the error returned is the
  disabled-trading one: that check comes first.\<close>

theorem disabled_trading_is_reported_first:
  "\<not> string_truthy (PRIVATE_KEY collaborators_disabled_no_key)
   \<and> \<not> string_truthy (privateKey config_disabled_no_key)
   \<and> fst (executeArbitrageTrade collaborators_disabled_no_key ''u1'' opportunity0 False []) =
       Inr \<lparr>success = False, txHash = None, profitUsd = None, gasCostUsd = None,
            message = Trade_execution_failed RealTradingDisabled,
            error = Some RealTradingDisabled,
            executionTime = Some 4\<rparr>"
  by (simp add: run_eval)

text \<open>
  C6 (as amended): in real mode, when neither the configuration nor the environment
  provides a private key, the call makes no balance query and no gas-price query and
  never returns \<open>success = true\<close>; and when the configuration is found with real trading
  enabled and the audit log and the record store accept the writes, it returns the
  credential-missing error.
\<close>

theorem no_credential_fails_before_network:
  assumes env: "\<not> string_truthy (PRIVATE_KEY c)"
      and cfg: "\<And>h1 cfg. getBotConfig c h1 userId = Inr (Some cfg) \<Longrightarrow> \<not> string_truthy (privateKey cfg)"
      and run: "executeArbitrageTrade c userId opportunity False h = (res, h')"
  shows "network_queries h' = network_queries h
       \<and> (\<forall>r. res = Inr r \<longrightarrow> \<not> success r)
       \<and> ((\<forall>h1 entry. createActivityLog c h1 userId entry = None)
            \<and> (\<forall>h1 tx. createArbitrageTransaction c h1 userId tx = None)
            \<and> (\<forall>h1. \<exists>cf. getBotConfig c h1 userId = Inr (Some cf) \<and> enableRealTrading cf)
          \<longrightarrow> (\<exists>r. res = Inr r \<and> error r = Some PrivateKeyNotConfigured))"
proof (cases "try_block c userId opportunity False (Date_now c h) h")
  case (Pair r0 h1)
  have "(\<exists>e. r0 = Inl e) \<and> network_queries h1 = network_queries h"
  proof (rule try_block_no_credential)
    show "\<not> string_truthy (PRIVATE_KEY c)"
      by (rule env)
    show "\<And>h1 cfg. getBotConfig c h1 userId = Inr (Some cfg) \<Longrightarrow> \<not> string_truthy (privateKey cfg)"
      by (rule cfg)
    show "try_block c userId opportunity False (Date_now c h) h = (r0, h1)"
      by (rule Pair)
  qed
  then obtain e where e: "r0 = Inl e" and q: "network_queries h1 = network_queries h"
    by blast
  from run Pair e have catch: "catch_block c userId opportunity (Date_now c h) e h1 = (res, h')"
    by (simp add: executeArbitrageTrade_def io_catch_def)
  note frame = catch_block_frame [OF catch]
  have "\<exists>r. res = Inr r \<and> error r = Some PrivateKeyNotConfigured"
    if log: "\<forall>h1 entry. createActivityLog c h1 userId entry = None"
      and tx: "\<forall>h1 tx. createArbitrageTransaction c h1 userId tx = None"
      and found: "\<forall>h1. \<exists>cf. getBotConfig c h1 userId = Inr (Some cf) \<and> enableRealTrading cf"
  proof -
    have "r0 = Inl PrivateKeyNotConfigured"
    proof (rule try_block_no_credential_error)
      show "\<not> string_truthy (PRIVATE_KEY c)"
        by (rule env)
      show "\<And>h1 cfg. getBotConfig c h1 userId = Inr (Some cfg) \<Longrightarrow> \<not> string_truthy (privateKey cfg)"
        by (rule cfg)
      show "\<And>h1 entry. createActivityLog c h1 userId entry = None"
        using log by simp
      show "\<And>h1. \<exists>cf. getBotConfig c h1 userId = Inr (Some cf) \<and> enableRealTrading cf"
        using found by simp
      show "try_block c userId opportunity False (Date_now c h) h = (r0, h1)"
        by (rule Pair)
    qed
    with e have "e = PrivateKeyNotConfigured"
      by simp
    with catch log tx show ?thesis
      by (auto simp: catch_block_def io_defs)
  qed
  with frame q show ?thesis
    by simp
qed

text \<open>Real trading enabled, no key in the configuration, none in the environment.\<close>

theorem no_credential_fails_before_network_witness:
  "\<not> string_truthy (PRIVATE_KEY collaborators_no_key)
   \<and> (\<forall>h1. getBotConfig collaborators_no_key h1 ''u1'' = Inr (Some config_no_key))
   \<and> \<not> string_truthy (privateKey config_no_key)
   \<and> enableRealTrading config_no_key
   \<and> (\<forall>h1 entry. createActivityLog collaborators_no_key h1 ''u1'' entry = None)
   \<and> (\<forall>h1 tx. createArbitrageTransaction collaborators_no_key h1 ''u1'' tx = None)
   \<and> network_queries (snd (executeArbitrageTrade collaborators_no_key ''u1'' opportunity0 False []))
       = []
   \<and> (\<exists>r. fst (executeArbitrageTrade collaborators_no_key ''u1'' opportunity0 False []) = Inr r
         \<and> \<not> success r \<and> error r = Some PrivateKeyNotConfigured)"
proof -
  let ?run = "executeArbitrageTrade collaborators_no_key ''u1'' opportunity0 False []"
  have env: "\<not> string_truthy (PRIVATE_KEY collaborators_no_key)"
    by (simp add: fixture_defs)
  have cfg: "\<not> string_truthy (privateKey cfg)"
    if "getBotConfig collaborators_no_key h1 ''u1'' = Inr (Some cfg)" for h1 cfg
    using that by (auto simp: fixture_defs)
  have log: "\<forall>h1 entry. createActivityLog collaborators_no_key h1 ''u1'' entry = None"
    by (simp add: fixture_defs)
  have tx: "\<forall>h1 tx. createArbitrageTransaction collaborators_no_key h1 ''u1'' tx = None"
    by (simp add: fixture_defs)
  have found: "\<forall>h1. \<exists>cf. getBotConfig collaborators_no_key h1 ''u1'' = Inr (Some cf)
      \<and> enableRealTrading cf"
    by (simp add: fixture_defs)
  have run: "?run = (fst ?run, snd ?run)"
    by simp
  have "network_queries (snd ?run) = network_queries []
      \<and> (\<forall>r. fst ?run = Inr r \<longrightarrow> \<not> success r)
      \<and> ((\<forall>h1 entry. createActivityLog collaborators_no_key h1 ''u1'' entry = None)
           \<and> (\<forall>h1 tx. createArbitrageTransaction collaborators_no_key h1 ''u1'' tx = None)
           \<and> (\<forall>h1. \<exists>cf. getBotConfig collaborators_no_key h1 ''u1'' = Inr (Some cf)
                 \<and> enableRealTrading cf)
         \<longrightarrow> (\<exists>r. fst ?run = Inr r \<and> error r = Some PrivateKeyNotConfigured))"
  proof (rule no_credential_fails_before_network)
    show "\<not> string_truthy (PRIVATE_KEY collaborators_no_key)"
      by (rule env)
    show "\<And>h1 cfg. getBotConfig collaborators_no_key h1 ''u1'' = Inr (Some cfg)
        \<Longrightarrow> \<not> string_truthy (privateKey cfg)"
      by (rule cfg)
    show "?run = (fst ?run, snd ?run)"
      by (rule run)
  qed
  with log tx found
  have result: "network_queries (snd ?run) = []
      \<and> (\<exists>r. fst ?run = Inr r \<and> \<not> success r \<and> error r = Some PrivateKeyNotConfigured)"
    by (simp only: network_queries_simps) blast
  have store: "\<forall>h1. getBotConfig collaborators_no_key h1 ''u1'' = Inr (Some config_no_key)"
      "\<not> string_truthy (privateKey config_no_key)" "enableRealTrading config_no_key"
    by (simp_all add: fixture_defs)
  from env store log tx result show ?thesis
    by (intro conjI) simp_all
qed

text \<open>
  C7: in simulation mode, with answering collaborators and a gas price within the ceiling,
  the call returns \<open>success = true\<close>, stores one record with status \<open>success\<close>, notifies
  exactly when the estimated profit reaches the configured threshold (10 when unset), and
  queries the gas price only, not the balance.  Nothing is assumed about a private key:
  the credential check and the balance check are skipped.
\<close>

theorem simulation_needs_no_credential:
  assumes log: "\<And>h1 entry. createActivityLog c h1 userId entry = None"
      and cfg: "\<And>h1. getBotConfig c h1 userId = Inr (Some config)"
      and gas: "\<And>h1. getGasPrice c h1 = Inr g"
      and ceiling: "\<not> number_gt (parseFloat g) (number_or (maxGasPriceGwei config) (fl 60 1))"
      and tx: "\<And>h1 t. createArbitrageTransaction c h1 userId t = None"
      and tg: "\<And>h1 k. telegram c h1 userId k = None"
  shows "\<exists>r h'. executeArbitrageTrade c userId opportunity True h = (Inr r, h')
           \<and> success r
           \<and> (\<exists>w. written h' = written h @ [w] \<and> status w = Status_success)
           \<and> notified h' = notified h @
                (if number_ge (estimatedProfitUsd opportunity)
                      (parseFloat (jsstring_or (telegramProfitThresholdUsd config) (Str ''10'')))
                 then [trade_success] else [])
           \<and> network_queries h' = network_queries h @ [Returned GetGasPrice]"
  unfolding executeArbitrageTrade_def try_block_def check_matic_balance_def check_gas_price_def
    simulate_trade_def
  by (simp add: io_defs Let_def log cfg gas ceiling tx tg split: option.splits)

text \<open>No key in the configuration and none in the environment: a profit of 25 against a
  threshold of 10 is notified, a profit of 5 is not.\<close>

theorem simulation_needs_no_credential_witness:
  "\<not> string_truthy (PRIVATE_KEY collaborators_no_key)
   \<and> \<not> string_truthy (privateKey config_no_key)
   \<and> (\<forall>h1 entry. createActivityLog collaborators_no_key h1 ''u1'' entry = None)
   \<and> (\<forall>h1. getBotConfig collaborators_no_key h1 ''u1'' = Inr (Some config_no_key))
   \<and> (\<forall>h1. getGasPrice collaborators_no_key h1 = Inr (Str ''30''))
   \<and> \<not> number_gt (parseFloat (Str ''30'')) (number_or (maxGasPriceGwei config_no_key) (fl 60 1))
   \<and> (\<forall>h1 t. createArbitrageTransaction collaborators_no_key h1 ''u1'' t = None)
   \<and> (\<forall>h1 k. telegram collaborators_no_key h1 ''u1'' k = None)
   \<and> (\<exists>r h'. executeArbitrageTrade collaborators_no_key ''u1'' opportunity0 True [] = (Inr r, h')
         \<and> success r \<and> map status (written h') = [Status_success]
         \<and> notified h' = [trade_success]
         \<and> network_queries h' = [Returned GetGasPrice])
   \<and> (\<exists>r h'. executeArbitrageTrade collaborators_no_key ''u1'' opportunity_small_profit True []
          = (Inr r, h')
         \<and> success r \<and> map status (written h') = [Status_success]
         \<and> notified h' = []
         \<and> network_queries h' = [Returned GetGasPrice])"
proof -
  have key: "\<not> string_truthy (PRIVATE_KEY collaborators_no_key)"
      "\<not> string_truthy (privateKey config_no_key)"
    by (simp_all add: fixture_defs)
  have log: "createActivityLog collaborators_no_key h1 ''u1'' entry = None" for h1 entry
    by (simp add: fixture_defs)
  have cfg: "getBotConfig collaborators_no_key h1 ''u1'' = Inr (Some config_no_key)" for h1
    by (simp add: fixture_defs)
  have gas: "getGasPrice collaborators_no_key h1 = Inr (Str ''30'')" for h1
    by (simp add: fixture_defs)
  have ceiling: "\<not> number_gt (parseFloat (Str ''30''))
      (number_or (maxGasPriceGwei config_no_key) (fl 60 1))"
    by (simp add: fixture_defs number_or_def number_gt_def literal_eval)
  have tx: "createArbitrageTransaction collaborators_no_key h1 ''u1'' t = None" for h1 t
    by (simp add: fixture_defs)
  have tg: "telegram collaborators_no_key h1 ''u1'' k = None" for h1 k
    by (simp add: fixture_defs)
  have big: "number_ge (estimatedProfitUsd opportunity0)
      (parseFloat (jsstring_or (telegramProfitThresholdUsd config_no_key) (Str ''10'')))"
    by (simp add: fixture_defs jsstring_or_def number_ge_def literal_eval)
  have small: "\<not> number_ge (estimatedProfitUsd opportunity_small_profit)
      (parseFloat (jsstring_or (telegramProfitThresholdUsd config_no_key) (Str ''10'')))"
    by (simp add: fixture_defs jsstring_or_def number_ge_def literal_eval)
  from simulation_needs_no_credential
    [where c = collaborators_no_key and userId = "''u1''" and config = config_no_key
       and g = "Str ''30''" and opportunity = opportunity0 and h = "[]",
     OF log cfg gas ceiling tx tg]
  have first: "\<exists>r h'. executeArbitrageTrade collaborators_no_key ''u1'' opportunity0 True []
        = (Inr r, h')
      \<and> success r \<and> map status (written h') = [Status_success]
      \<and> notified h' = [trade_success] \<and> network_queries h' = [Returned GetGasPrice]"
    using big by auto
  from simulation_needs_no_credential
    [where c = collaborators_no_key and userId = "''u1''" and config = config_no_key
       and g = "Str ''30''" and opportunity = opportunity_small_profit and h = "[]",
     OF log cfg gas ceiling tx tg]
  have second: "\<exists>r h'. executeArbitrageTrade collaborators_no_key ''u1'' opportunity_small_profit
        True [] = (Inr r, h')
      \<and> success r \<and> map status (written h') = [Status_success]
      \<and> notified h' = [] \<and> network_queries h' = [Returned GetGasPrice]"
    using small by auto
  from key log cfg gas ceiling tx tg first second show ?thesis
    by (intro conjI allI)
qed

end
